theory Spec2Isabelle
  imports Main
begin

text \<open>
  A model of \<open>ospd_openvas/wrapper.py\<close>, the class \<open>OSPDopenvas\<close> that runs the OpenVAS
  scanner for an OSP daemon: the credential preference builder, the cache of VT
  metadata with its feed check, the encoder of VT selections into preference records,
  and the controller \<open>exec_scan\<close>. The definitions follow the source function by
  function and keep its names; the properties proved of them come after all
  definitions.
\<close>

section \<open>Python values, errors and dictionaries\<close>

text \<open>
  The daemon is Python. A raised exception is a value of \<open>py_error\<close>, and a function
  that may raise returns \<open>py_error + 'a\<close>. A dictionary is an association list in
  insertion order (the order \<open>items()\<close> enumerates); lookups find the first entry of a key.
\<close>

datatype py_error =
    KeyError string
  | ValueError
  | TypeError
  | NameError string
  | IndexError
  | AttributeError

datatype pyval = PStr string | PInt int | PBool bool | PNone

type_synonym ('k, 'v) dict = "('k \<times> 'v) list"

definition dict_get :: "('k, 'v) dict \<Rightarrow> 'k \<Rightarrow> 'v option" where
  "dict_get d k = map_of d k"

definition dict_get_default :: "('k, 'v) dict \<Rightarrow> 'k \<Rightarrow> 'v \<Rightarrow> 'v" where
  "dict_get_default d k dflt = (case map_of d k of None \<Rightarrow> dflt | Some v \<Rightarrow> v)"

definition dict_has :: "('k, 'v) dict \<Rightarrow> 'k \<Rightarrow> bool" where
  "dict_has d k = (map_of d k \<noteq> None)"

definition dict_remove :: "('k, 'v) dict \<Rightarrow> 'k \<Rightarrow> ('k, 'v) dict" where
  "dict_remove d k = filter (\<lambda>p. fst p \<noteq> k) d"

section \<open>Preference records\<close>

text \<open>
  A preference record is a string \<open>name|||value\<close>. \<open>has_sep\<close> finds the delimiter by
  scanning the string; \<open>is_pref_record\<close> is the same property stated with a name part
  and a value part.
\<close>

fun has_sep :: "string \<Rightarrow> bool" where
  "has_sep [] = False"
| "has_sep (c # cs) = (take 3 (c # cs) = ''|||'' \<or> has_sep cs)"

definition is_pref_record :: "string \<Rightarrow> bool" where
  "is_pref_record s = (\<exists>name val. s = name @ ''|||'' @ val)"

section \<open>Credential preference builder\<close>

text \<open>
  \<open>build_credentials_as_prefs\<close> (wrapper.py, lines 885 to 957). The credential map sends
  a service name to a dictionary of string fields. \<open>credential_prefs\<close> is the body of the
  loop for one service: four independent \<open>if service == ...\<close> blocks, in the source's
  order. The loop reads the service name from the item and fetches the fields again with
  \<open>credentials.get(service)\<close>.
\<close>

type_synonym cred_params = "(string, string) dict"
type_synonym credentials = "(string, cred_params) dict"

definition ssh_prefs :: "cred_params \<Rightarrow> string list" where
  "ssh_prefs cred_params =
     (let cred_type = dict_get_default cred_params ''type'' '''';
          username = dict_get_default cred_params ''username'' '''';
          password = dict_get_default cred_params ''password'' '''';
          port = dict_get_default cred_params ''port'' ''''
      in [''auth_port_ssh|||'' @ port,
          ''SSH Authorization[entry]:SSH login name:|||'' @ username]
         @ (if cred_type = ''up''
            then [''SSH Authorization[password]:SSH password (unsafe!):|||'' @ password]
            else (let private = dict_get_default cred_params ''private'' ''''
                  in [''SSH Authorization[password]:SSH key passphrase:|||'' @ password,
                      ''SSH Authorization[file]:SSH private key:|||'' @ private])))"

definition smb_prefs :: "cred_params \<Rightarrow> string list" where
  "smb_prefs cred_params =
     (let username = dict_get_default cred_params ''username'' '''';
          password = dict_get_default cred_params ''password'' ''''
      in [''SMB Authorization[entry]:SMB login:|||'' @ username,
          ''SMB Authorization[password]:SMB password :|||'' @ password])"

definition esxi_prefs :: "cred_params \<Rightarrow> string list" where
  "esxi_prefs cred_params =
     (let username = dict_get_default cred_params ''username'' '''';
          password = dict_get_default cred_params ''password'' ''''
      in [''ESXi Authorization[entry]:ESXi login name:|||'' @ username,
          ''ESXi Authorization[password]:ESXi login password:|||'' @ password])"

definition snmp_prefs :: "cred_params \<Rightarrow> string list" where
  "snmp_prefs cred_params =
     (let username = dict_get_default cred_params ''username'' '''';
          password = dict_get_default cred_params ''password'' '''';
          community = dict_get_default cred_params ''community'' '''';
          auth_algorithm = dict_get_default cred_params ''auth_algorithm'' '''';
          privacy_password = dict_get_default cred_params ''privacy_password'' '''';
          privacy_algorithm = dict_get_default cred_params ''privacy_algorithm'' ''''
      in [''SNMP Authorization[password]:SNMP Community:'' @ community,
          ''SNMP Authorization[entry]:SNMPv3 Username:'' @ username,
          ''SNMP Authorization[password]:SNMPv3 Password:'' @ password,
          ''SNMP Authorization[radio]:SNMPv3 Authentication Algorithm:'' @ auth_algorithm,
          ''SNMP Authorization[password]:SNMPv3 Privacy Password:'' @ privacy_password,
          ''SNMP Authorization[radio]:SNMPv3 Privacy Algorithm:'' @ privacy_algorithm])"

definition credential_prefs :: "string \<Rightarrow> cred_params \<Rightarrow> string list" where
  "credential_prefs service cred_params =
     (if service = ''ssh'' then ssh_prefs cred_params else [])
     @ (if service = ''smb'' then smb_prefs cred_params else [])
     @ (if service = ''esxi'' then esxi_prefs cred_params else [])
     @ (if service = ''snmp'' then snmp_prefs cred_params else [])"

fun credentials_loop ::
  "credentials \<Rightarrow> (string \<times> cred_params) list \<Rightarrow> string list \<Rightarrow> py_error + string list" where
  "credentials_loop credentials [] cred_prefs_list = Inr cred_prefs_list"
| "credentials_loop credentials (credential # rest) cred_prefs_list =
     (let service = fst credential
      in case dict_get credentials service of
           None \<Rightarrow> Inl AttributeError
         | Some cred_params \<Rightarrow>
             credentials_loop credentials rest
               (cred_prefs_list @ credential_prefs service cred_params))"

definition build_credentials_as_prefs :: "credentials \<Rightarrow> py_error + string list" where
  "build_credentials_as_prefs credentials = credentials_loop credentials credentials []"

definition known_services :: "string set" where
  "known_services = {''ssh'', ''smb'', ''esxi'', ''snmp''}"

definition starts_with :: "string \<Rightarrow> string \<Rightarrow> bool" where
  "starts_with p s = (take (length p) s = p)"

section \<open>More of Python: errors in sequence, strings, numbers\<close>

definition err_bind :: "py_error + 'a \<Rightarrow> ('a \<Rightarrow> py_error + 'b) \<Rightarrow> py_error + 'b" where
  "err_bind m f = (case m of Inl e \<Rightarrow> Inl e | Inr x \<Rightarrow> f x)"

definition dict_set :: "('k, 'v) dict \<Rightarrow> 'k \<Rightarrow> 'v \<Rightarrow> ('k, 'v) dict" where
  "dict_set d k v =
     (if dict_has d k then map (\<lambda>p. if fst p = k then (k, v) else p) d else d @ [(k, v)])"

definition py_dict :: "('k \<times> 'v) list \<Rightarrow> ('k, 'v) dict" where
  "py_dict pairs = fold (\<lambda>p d. dict_set d (fst p) (snd p)) pairs []"

definition pop :: "(string, 'v) dict \<Rightarrow> string \<Rightarrow> py_error + ('v \<times> (string, 'v) dict)" where
  "pop d k = (case map_of d k of None \<Rightarrow> Inl (KeyError k) | Some v \<Rightarrow> Inr (v, dict_remove d k))"

text \<open>\<open>if k in d: x = d.pop(k)\<close>, with \<open>x\<close> initialised to \<open>None\<close>.\<close>

definition pop_if_present :: "('k, 'v) dict \<Rightarrow> 'k \<Rightarrow> 'v option \<times> ('k, 'v) dict" where
  "pop_if_present d k = (map_of d k, dict_remove d k)"

text \<open>
  \<open>s.split(sep)\<close> for a separator that is not empty: \<open>split_aux sep skip cur rest\<close>
  walks the string once; \<open>skip\<close> counts the characters of a separator just found that
  are still to be passed over, \<open>cur\<close> is the piece being collected.
\<close>

fun split_aux :: "string \<Rightarrow> nat \<Rightarrow> string \<Rightarrow> string \<Rightarrow> string list" where
  "split_aux sep skip cur [] = [cur]"
| "split_aux sep (Suc k) cur (c # cs) = split_aux sep k cur cs"
| "split_aux sep 0 cur (c # cs) =
     (if sep \<noteq> [] \<and> take (length sep) (c # cs) = sep
      then cur # split_aux sep (length sep - 1) [] cs
      else split_aux sep 0 (cur @ [c]) cs)"

definition split :: "string \<Rightarrow> string \<Rightarrow> string list" where
  "split sep s = split_aux sep 0 [] s"

fun join :: "string \<Rightarrow> string list \<Rightarrow> string" where
  "join sep [] = []"
| "join sep [x] = x"
| "join sep (x # y # ys) = x @ sep @ join sep (y # ys)"

definition digit_char :: "nat \<Rightarrow> char" where
  "digit_char d = char_of (48 + d)"

fun str_of_nat :: "nat \<Rightarrow> string" where
  "str_of_nat n = (if n < 10 then [digit_char n] else str_of_nat (n div 10) @ [digit_char (n mod 10)])"

declare str_of_nat.simps [simp del]

definition str_of_int :: "int \<Rightarrow> string" where
  "str_of_int i = (if i < 0 then CHR ''-'' # str_of_nat (nat (- i)) else str_of_nat (nat i))"

text \<open>\<open>str(v)\<close> and the truth value of \<open>v\<close>.\<close>

fun py_str :: "pyval \<Rightarrow> string" where
  "py_str (PStr s) = s"
| "py_str (PInt i) = str_of_int i"
| "py_str (PBool b) = (if b then ''True'' else ''False'')"
| "py_str PNone = ''None''"

fun truthy :: "pyval \<Rightarrow> bool" where
  "truthy (PStr s) = (s \<noteq> [])"
| "truthy (PInt i) = (i \<noteq> 0)"
| "truthy (PBool b) = b"
| "truthy PNone = False"

fun isinstance_str :: "pyval \<Rightarrow> bool" where
  "isinstance_str (PStr s) = True"
| "isinstance_str v = False"

text \<open>
  \<open>int(v)\<close>. For a string: surrounding whitespace is dropped, one sign is allowed, then
  decimal digits, where single underscores may stand between digits. Anything else is a
  \<open>ValueError\<close>; \<open>int(None)\<close> is a \<open>TypeError\<close>. Strings are taken to be ASCII.
\<close>

definition is_space :: "char \<Rightarrow> bool" where
  "is_space c = (c \<in> {CHR '' '', CHR 0x09, CHR 0x0A, CHR 0x0B, CHR 0x0C, CHR 0x0D,
                        CHR 0x1C, CHR 0x1D, CHR 0x1E, CHR 0x1F})"

definition is_digit :: "char \<Rightarrow> bool" where
  "is_digit c = (48 \<le> (of_char c :: nat) \<and> (of_char c :: nat) \<le> 57)"

definition digit_val :: "char \<Rightarrow> nat" where
  "digit_val c = of_char c - 48"

definition strip :: "string \<Rightarrow> string" where
  "strip s = rev (dropWhile is_space (rev (dropWhile is_space s)))"

fun digits_value :: "string \<Rightarrow> nat \<Rightarrow> nat option" where
  "digits_value [] acc = Some acc"
| "digits_value [c] acc = (if is_digit c then Some (10 * acc + digit_val c) else None)"
| "digits_value (c # d # ds) acc =
     (if is_digit c then digits_value (d # ds) (10 * acc + digit_val c)
      else if c = CHR ''_'' \<and> is_digit d then digits_value ds (10 * acc + digit_val d)
      else None)"

definition unsigned_value :: "string \<Rightarrow> nat option" where
  "unsigned_value s =
     (case s of [] \<Rightarrow> None
      | c # cs \<Rightarrow> if is_digit c then digits_value cs (digit_val c) else None)"

definition int_of_str :: "string \<Rightarrow> int option" where
  "int_of_str s =
     (case strip s of
        [] \<Rightarrow> None
      | c # cs \<Rightarrow>
          if c = CHR ''-'' then map_option (\<lambda>n. - int n) (unsigned_value cs)
          else if c = CHR ''+'' then map_option int (unsigned_value cs)
          else map_option int (unsigned_value (c # cs)))"

fun py_int :: "pyval \<Rightarrow> py_error + int" where
  "py_int (PStr s) = (case int_of_str s of None \<Rightarrow> Inl ValueError | Some i \<Rightarrow> Inr i)"
| "py_int (PInt i) = Inr i"
| "py_int (PBool b) = Inr (if b then 1 else 0)"
| "py_int PNone = Inl TypeError"

section \<open>VT metadata cache\<close>

text \<open>
  One entry of the in-memory VT table \<open>self.vts\<close>, with the fields \<open>load_vts\<close> hands to
  \<open>add_vt\<close>. A parameter of a VT is itself a dictionary with the keys \<open>type\<close>, \<open>name\<close>,
  \<open>description\<close> and \<open>default\<close>. A dependency is \<open>oids.get(...)\<close>, so it may be \<open>None\<close>.
\<close>

type_synonym vt_params = "(string, (string, string) dict) dict"

record vt_entry =
  name :: string
  vt_params :: vt_params
  vt_refs :: "(string, string list) dict"
  custom :: "(string, string) dict"
  vt_creation_time :: string
  vt_modification_time :: string
  vt_dependencies :: "string option list"
  summary :: "string option"
  impact :: "string option"
  affected :: "string option"
  insight :: "string option"
  solution :: "string option"
  solution_t :: "string option"
  detection :: "string option"
  qod_t :: "string option"
  qod_v :: "string option"
  severities :: "(string, string) dict"

type_synonym vts_table = "(string, vt_entry) dict"

text \<open>
  The NVT cache in the shared store (class \<open>NVTICache\<close>, outside these sources) is what
  the daemon reads through it: the pairs of file name and OID, the per-OID parameter
  table, references and metadata map, and the feed version of the store.
\<close>

record nvticache =
  get_oids :: "(string \<times> string) list"
  get_nvt_params :: "string \<Rightarrow> vt_params"
  get_nvt_refs :: "string \<Rightarrow> (string, string list) dict"
  get_nvt_metadata :: "string \<Rightarrow> (string, string) dict"
  get_feed_version :: string

datatype log_entry = Debug string | Info string

text \<open>
  The daemon's own state: the VT table, the cached feed version (\<open>None\<close> until a load has
  finished), the pending flag (\<open>None\<close> after construction, then \<open>True\<close> or \<open>False\<close>), the
  registry of scan processes with whether each is alive, and the lines written to the
  logger so far.
\<close>

record daemon =
  vts :: vts_table
  vts_version :: "string option"
  pending_feed :: "bool option"
  scan_processes :: "(string, bool) dict"
  logged :: "log_entry list"

text \<open>
  Modelled from the spec: \<open>add_vt\<close> belongs to the base class \<open>OSPDaemon\<close>, which is not
  under src. Section 3 of the specification: OIDs are unique, and a malformed or a
  duplicate OID is rejected without aborting the load. \<open>load_vts\<close> reads the result
  \<open>-1\<close> as a duplicate and \<open>-2\<close> as an invalid OID; which identifiers are well formed is
  the parameter \<open>vt_id_ok\<close>.
\<close>

definition add_vt :: "(string \<Rightarrow> bool) \<Rightarrow> vts_table \<Rightarrow> string \<Rightarrow> vt_entry \<Rightarrow> int \<times> vts_table" where
  "add_vt vt_id_ok table vt_id entry =
     (if vt_id = [] \<or> \<not> vt_id_ok vt_id then (- 2, table)
      else if dict_has table vt_id then (- 1, table)
      else (int (length table) + 1, table @ [(vt_id, entry)]))"

text \<open>
  The body of the loop of \<open>load_vts\<close> up to the call of \<open>add_vt\<close> (wrapper.py, lines 299
  to 355): the fields of one VT, popped from its metadata map in the source's order.
  \<open>pop_texts\<close> is lines 306 to 334 (the optional text fields, each \<open>None\<close> unless its key is
  present), \<open>pop_severity\<close> lines 336 to 348, \<open>pop_dependencies\<close> lines 350 to 355.
  Line 343 pops from \<open>custom\<close>, a name that is bound nowhere: the branch raises
  \<open>NameError\<close>.
\<close>

record vt_texts =
  t_summary :: "string option"
  t_impact :: "string option"
  t_affected :: "string option"
  t_insight :: "string option"
  t_solution :: "string option"
  t_solution_t :: "string option"
  t_vuldetect :: "string option"
  t_qod_t :: "string option"
  t_qod_v :: "string option"

definition pop_texts :: "(string, string) dict \<Rightarrow> vt_texts \<times> (string, string) dict" where
  "pop_texts c3 =
     (let (summary', c4) = pop_if_present c3 ''summary'';
          (impact', c5) = pop_if_present c4 ''impact'';
          (affected', c6) = pop_if_present c5 ''affected'';
          (insight', c7) = pop_if_present c6 ''insight'';
          (solution', c8) = pop_if_present c7 ''solution'';
          (solution_t', c9) =
             (if dict_has c7 ''solution'' then pop_if_present c8 ''solution_type''
              else (None, c8));
          (vuldetect, c10) = pop_if_present c9 ''vuldetect'';
          (qod_t', c11) = pop_if_present c10 ''qod_type'';
          (qod_v', c12) =
             (if dict_has c10 ''qod_type'' then (None, c11) else pop_if_present c11 ''qod'')
      in (\<lparr>t_summary = summary', t_impact = impact', t_affected = affected',
           t_insight = insight', t_solution = solution', t_solution_t = solution_t',
           t_vuldetect = vuldetect, t_qod_t = qod_t', t_qod_v = qod_v'\<rparr>, c12))"

definition pop_severity ::
  "(string, string) dict \<Rightarrow> py_error + (string, string) dict \<times> (string, string) dict" where
  "pop_severity c12 =
     err_bind
       (if dict_has c12 ''severity_base_vector'' then pop c12 ''severity_base_vector''
        else pop c12 ''cvss_base_vector'') (\<lambda>(severity_vector, c13).
     if dict_has c13 ''severity_type'' then Inl (NameError ''custom'')
     else
       (let severity_type = ''cvss_base_v2'';
            (origin, c14) = pop_if_present c13 ''severity_origin''
        in Inr ([(''severity_base_vector'', severity_vector),
                 (''severity_type'', severity_type)]
                @ (case origin of None \<Rightarrow> [] | Some v \<Rightarrow> [(''severity_origin'', v)]),
                c14)))"

definition pop_dependencies ::
  "(string, string) dict \<Rightarrow> (string, string) dict
     \<Rightarrow> string option list \<times> (string, string) dict" where
  "pop_dependencies oids c14 =
     (let (deps, c15) = pop_if_present c14 ''dependencies''
      in (case deps of
            None \<Rightarrow> []
          | Some d \<Rightarrow> map (\<lambda>dep. dict_get oids (''filename:'' @ dep)) (split '', '' d),
          c15))"

definition vt_of_metadata ::
  "(string, string) dict \<Rightarrow> vt_params \<Rightarrow> (string, string list) dict \<Rightarrow> (string, string) dict
     \<Rightarrow> py_error + vt_entry" where
  "vt_of_metadata oids params refs custom0 =
     err_bind (pop custom0 ''name'') (\<lambda>(name', c1).
     err_bind (pop c1 ''creation_date'') (\<lambda>(creation, c2).
     err_bind (pop c2 ''last_modification'') (\<lambda>(modification, c3).
     err_bind (pop_severity (snd (pop_texts c3))) (\<lambda>(severity, c14).
       (let texts = fst (pop_texts c3);
            (dependencies, c15) = pop_dependencies oids c14
        in Inr \<lparr>name = name', vt_params = params, vt_refs = refs, custom = c15,
                vt_creation_time = creation, vt_modification_time = modification,
                vt_dependencies = dependencies, summary = t_summary texts,
                impact = t_impact texts, affected = t_affected texts,
                insight = t_insight texts, solution = t_solution texts,
                solution_t = t_solution_t texts, detection = t_vuldetect texts,
                qod_t = t_qod_t texts, qod_v = t_qod_v texts, severities = severity\<rparr>)))))"

text \<open>
  What \<open>load_vts\<close> pops unconditionally: an entry without one of these keys raises
  \<open>KeyError\<close> before line 342 is reached.
\<close>

definition has_required_keys :: "(string, string) dict \<Rightarrow> bool" where
  "has_required_keys m =
     (dict_has m ''name'' \<and> dict_has m ''creation_date'' \<and> dict_has m ''last_modification''
      \<and> (dict_has m ''severity_base_vector'' \<or> dict_has m ''cvss_base_vector''))"

text \<open>
  The loop of \<open>load_vts\<close> over \<open>oids.items()\<close>. An exception leaves the loop at once; the
  result then carries the error and the state reached so far.
\<close>

fun load_vts_loop ::
  "(string \<Rightarrow> bool) \<Rightarrow> nvticache \<Rightarrow> (string, string) dict \<Rightarrow> (string \<times> string) list \<Rightarrow> daemon
     \<Rightarrow> (py_error \<times> daemon) + daemon" where
  "load_vts_loop vt_id_ok nvti oids [] self = Inr self"
| "load_vts_loop vt_id_ok nvti oids ((filename, vt_id) # rest) self =
     (case vt_of_metadata oids (get_nvt_params nvti vt_id) (get_nvt_refs nvti vt_id)
             (get_nvt_metadata nvti vt_id) of
        Inl e \<Rightarrow> Inl (e, self)
      | Inr entry \<Rightarrow>
          (let (ret, table) = add_vt vt_id_ok (vts self) vt_id entry;
               lines =
                 (if ret = - 1 then [Info (''Dupplicated VT with OID: '' @ vt_id)] else [])
                 @ (if ret = - 2 then [Info (vt_id @ '': Invalid OID.'')] else [])
           in load_vts_loop vt_id_ok nvti oids rest
                (self\<lparr>vts := table, logged := logged self @ lines\<rparr>)))"

definition load_vts :: "(string \<Rightarrow> bool) \<Rightarrow> nvticache \<Rightarrow> daemon \<Rightarrow> (py_error \<times> daemon) + daemon" where
  "load_vts vt_id_ok nvti self =
     (let self1 = self\<lparr>logged := logged self @ [Debug ''Loading vts in memory.'']\<rparr>;
          oids = py_dict (get_oids nvti)
      in case load_vts_loop vt_id_ok nvti oids oids self1 of
           Inl x \<Rightarrow> Inl x
         | Inr self2 \<Rightarrow>
             Inr (self2\<lparr>vts_version := Some (get_feed_version nvti),
                        pending_feed := Some False,
                        logged := logged self2 @ [Debug ''Finish loading up vts.'']\<rparr>))"

text \<open>\<open>check_feed\<close> (wrapper.py, lines 264 to 287), one tick of the scheduler.\<close>

definition deferral_line :: log_entry where
  "deferral_line =
     Debug ''There is a running scan. Therefore the feed update will be performed later.''"

definition running_scan :: "daemon \<Rightarrow> bool" where
  "running_scan self =
     list_ex (\<lambda>p. dict_get (scan_processes self) (fst p) = Some True) (scan_processes self)"

definition check_feed :: "(string \<Rightarrow> bool) \<Rightarrow> nvticache \<Rightarrow> daemon \<Rightarrow> (py_error \<times> daemon) + daemon" where
  "check_feed vt_id_ok nvti self =
     (let running = running_scan self;
          pending =
            (if pending_feed self = Some True then True
             else vts_version self \<noteq> Some (get_feed_version nvti))
      in if running \<and> pending then
           (if pending_feed self \<noteq> Some True
            then Inr (self\<lparr>pending_feed := Some True, logged := logged self @ [deferral_line]\<rparr>)
            else Inr self)
         else if \<not> running \<and> pending then load_vts vt_id_ok nvti (self\<lparr>vts := []\<rparr>)
         else Inr self)"

text \<open>The scheduler runs \<open>check_feed\<close> again and again; an exception ends the run.\<close>

fun scheduler_ticks ::
  "(string \<Rightarrow> bool) \<Rightarrow> nvticache \<Rightarrow> nat \<Rightarrow> daemon \<Rightarrow> (py_error \<times> daemon) + daemon" where
  "scheduler_ticks vt_id_ok nvti 0 self = Inr self"
| "scheduler_ticks vt_id_ok nvti (Suc n) self =
     (case check_feed vt_id_ok nvti self of
        Inl x \<Rightarrow> Inl x
      | Inr self' \<Rightarrow> scheduler_ticks vt_id_ok nvti n self')"

section \<open>Scan preference encoder\<close>

text \<open>
  \<open>get_vts_in_groups\<close> (wrapper.py, lines 802 to 822): the OIDs of the table grouped by
  the \<open>family\<close> entry of their custom map (a VT without one falls under the key \<open>None\<close>),
  then the groups named by the filters \<open>family=<value>\<close>, in the order of the filters.
  Unpacking \<open>elem.split('=')\<close> into two names raises \<open>ValueError\<close> unless there are
  exactly two pieces.
\<close>

fun families_loop ::
  "vts_table \<Rightarrow> (string option, string list) dict \<Rightarrow> (string option, string list) dict" where
  "families_loop [] families = families"
| "families_loop ((oid, vt) # rest) families =
     (let family = dict_get (custom vt) ''family'';
          families1 = (if \<not> dict_has families family then families @ [(family, [])] else families);
          families2 = map (\<lambda>p. if fst p = family then (family, snd p @ [oid]) else p) families1
      in families_loop rest families2)"

fun filters_loop ::
  "(string option, string list) dict \<Rightarrow> string list \<Rightarrow> string list \<Rightarrow> py_error + string list" where
  "filters_loop families [] vts_list = Inr vts_list"
| "filters_loop families (elem # rest) vts_list =
     (case split ''='' elem of
        [key, val] \<Rightarrow>
          filters_loop families rest
            (if key = ''family'' \<and> dict_has families (Some val)
             then vts_list @ dict_get_default families (Some val) []
             else vts_list)
      | _ \<Rightarrow> Inl ValueError)"

definition get_vts_in_groups :: "vts_table \<Rightarrow> string list \<Rightarrow> py_error + string list" where
  "get_vts_in_groups table filters = filters_loop (families_loop table []) filters []"

text \<open>
  \<open>get_vt_param_type\<close> (lines 824 to 829). The result \<open>None\<close> stands for the \<open>False\<close> the
  source returns when the parameter id is not in the table of the VT, or is there with an
  empty dictionary.
\<close>

definition get_vt_param_type :: "vts_table \<Rightarrow> string \<Rightarrow> string \<Rightarrow> py_error + string option" where
  "get_vt_param_type table vtid vt_param_id =
     (case dict_get table vtid of
        None \<Rightarrow> Inl (KeyError vtid)
      | Some vt \<Rightarrow>
          (case dict_get (vt_params vt) vt_param_id of
             None \<Rightarrow> Inr None
           | Some param \<Rightarrow>
               if param = [] then Inr None
               else (case dict_get param ''type'' of
                       None \<Rightarrow> Inl (KeyError ''type'')
                     | Some t \<Rightarrow> Inr (Some t))))"

text \<open>
  \<open>check_param_type\<close> (lines 831 to 852) returns \<open>None\<close> when the value fits the type and
  \<open>1\<close> when it does not. Only \<open>ValueError\<close> from \<open>int(...)\<close> is caught.
\<close>

definition check_param_type :: "pyval \<Rightarrow> string \<Rightarrow> py_error + pyval" where
  "check_param_type vt_param_value param_type =
     (if param_type \<in> set [''entry'', ''file'', ''password'', ''radio'', ''sshlogin'']
         \<and> isinstance_str vt_param_value
      then Inr PNone
      else if param_type = ''checkbox''
              \<and> (vt_param_value = PStr ''yes'' \<or> vt_param_value = PStr ''no'')
      then Inr PNone
      else if param_type = ''integer'' then
        (case py_int vt_param_value of
           Inl ValueError \<Rightarrow> Inr (PInt 1)
         | Inl e \<Rightarrow> Inl e
         | Inr i \<Rightarrow> Inr PNone)
      else Inr (PInt 1))"

text \<open>
  \<open>process_vts\<close> (lines 854 to 883). A scan's VT selection holds the group filters under
  the key \<open>vt_groups\<close> and, per selected OID, the values of its parameters. The inner
  loop runs over the parameters of one VT, the outer loop over the selected VTs; both
  carry the lines logged so far and the parameter records collected so far.
\<close>

record vt_selection =
  vt_groups :: "string list option"
  vt_single :: "(string, (string, pyval) dict) dict"

definition not_loaded_line :: "string \<Rightarrow> string \<Rightarrow> log_entry" where
  "not_loaded_line vt_param_id vtid =
     Debug (''The vt parameter '' @ vt_param_id @ '' for '' @ vtid @ '' could not be loaded.'')"

definition expected_type_line :: "string \<Rightarrow> pyval \<Rightarrow> log_entry" where
  "expected_type_line type_aux vt_param_value =
     Debug (''Expected '' @ type_aux @ '' type for parameter value '' @ py_str vt_param_value)"

definition param_record :: "string \<Rightarrow> string \<Rightarrow> string \<Rightarrow> pyval \<Rightarrow> string \<times> string" where
  "param_record nvt_name param_type vt_param_id vt_param_value =
     (nvt_name @ ''['' @ param_type @ '']:'' @ vt_param_id, py_str vt_param_value)"

fun vt_params_loop ::
  "vts_table \<Rightarrow> string \<Rightarrow> string \<Rightarrow> (string \<times> pyval) list \<Rightarrow> log_entry list
     \<Rightarrow> (string \<times> string) list \<Rightarrow> log_entry list \<times> (py_error + (string \<times> string) list)" where
  "vt_params_loop table vtid nvt_name [] lines vts_params = (lines, Inr vts_params)"
| "vt_params_loop table vtid nvt_name ((vt_param_id, vt_param_value) # rest) lines vts_params =
     (case get_vt_param_type table vtid vt_param_id of
        Inl e \<Rightarrow> (lines, Inl e)
      | Inr None \<Rightarrow>
          vt_params_loop table vtid nvt_name rest
            (lines @ [not_loaded_line vt_param_id vtid]) vts_params
      | Inr (Some param_type) \<Rightarrow>
          if param_type = [] then
            vt_params_loop table vtid nvt_name rest
              (lines @ [not_loaded_line vt_param_id vtid]) vts_params
          else
            (let type_aux = (if vt_param_id = ''timeout'' then ''integer'' else param_type)
             in case check_param_type vt_param_value type_aux of
                  Inl e \<Rightarrow> (lines, Inl e)
                | Inr r \<Rightarrow>
                    vt_params_loop table vtid nvt_name rest
                      (if truthy r then lines @ [expected_type_line type_aux vt_param_value]
                       else lines)
                      (vts_params
                       @ [param_record nvt_name param_type vt_param_id vt_param_value])))"

fun vts_loop ::
  "vts_table \<Rightarrow> (string \<times> (string, pyval) dict) list \<Rightarrow> string list \<Rightarrow> log_entry list
     \<Rightarrow> (string \<times> string) list
     \<Rightarrow> log_entry list \<times> (py_error + string list \<times> (string \<times> string) list)" where
  "vts_loop table [] vts_list lines vts_params = (lines, Inr (vts_list, vts_params))"
| "vts_loop table ((vtid, params) # rest) vts_list lines vts_params =
     (case dict_get table vtid of
        None \<Rightarrow> (lines, Inl (KeyError vtid))
      | Some vt \<Rightarrow>
          (case vt_params_loop table vtid (name vt) params lines vts_params of
             (lines', Inl e) \<Rightarrow> (lines', Inl e)
           | (lines', Inr vts_params') \<Rightarrow>
               vts_loop table rest (vts_list @ [vtid]) lines' vts_params'))"

definition process_vts ::
  "vts_table \<Rightarrow> vt_selection
     \<Rightarrow> log_entry list \<times> (py_error + string list \<times> (string \<times> string) list)" where
  "process_vts table selection =
     (case vt_groups selection of
        None \<Rightarrow> ([], Inl (KeyError ''vt_groups''))
      | Some vtgroups \<Rightarrow>
          (case (if vtgroups \<noteq> [] then get_vts_in_groups table vtgroups else Inr []) of
             Inl e \<Rightarrow> ([], Inl e)
           | Inr vts_list \<Rightarrow> vts_loop table (vt_single selection) vts_list [] []))"

text \<open>
  The table \<open>OSPD_PARAMS\<close> (lines 54 to 196), reduced to the \<open>type\<close> of each scanner
  option, which is all \<open>exec_scan\<close> reads from it.
\<close>

definition OSPD_PARAMS :: "(string, string) dict" where
  "OSPD_PARAMS =
     [(''auto_enable_dependencies'', ''boolean''),
      (''cgi_path'', ''string''),
      (''checks_read_timeout'', ''integer''),
      (''drop_privileges'', ''boolean''),
      (''network_scan'', ''boolean''),
      (''non_simult_ports'', ''string''),
      (''open_sock_max_attempts'', ''integer''),
      (''timeout_retry'', ''integer''),
      (''optimize_test'', ''integer''),
      (''plugins_timeout'', ''integer''),
      (''report_host_details'', ''boolean''),
      (''safe_checks'', ''boolean''),
      (''scanner_plugins_timeout'', ''integer''),
      (''time_between_request'', ''integer''),
      (''unscanned_closed'', ''boolean''),
      (''unscanned_closed_udp'', ''boolean''),
      (''use_mac_addr'', ''boolean''),
      (''vhosts'', ''string''),
      (''vhosts_ip'', ''string'')]"

definition from_bool_to_str :: "pyval \<Rightarrow> string" where
  "from_bool_to_str v = (if v = PInt 1 \<or> v = PBool True then ''yes'' else ''no'')"

definition option_pref :: "string \<Rightarrow> pyval \<Rightarrow> string" where
  "option_pref key v =
     (let item_type = (case dict_get OSPD_PARAMS key of None \<Rightarrow> [] | Some t \<Rightarrow> t);
          val = (if item_type = ''boolean'' then from_bool_to_str v else py_str v)
      in key @ ''|||'' @ val)"

section \<open>Scan execution controller\<close>

text \<open>
  \<open>exec_scan\<close> (wrapper.py, lines 959 to 1112) talks to the shared store, to the base
  class and to the operating system. The model records every such call, in order, as an
  \<open>event\<close>; what the calls answer is given by the environment of the scan.

  The three calls that drain one auxiliary KB (\<open>get_openvas_result\<close>,
  \<open>get_openvas_status\<close> and, inside it, \<open>update_progress\<close>) read entries of that KB and
  hand them to the sinks of the base class; some of them compute in floating point. They
  are kept abstract: a KB view lists the sink calls they make and the exception they end
  with, if any.
\<close>

datatype retval = RInt int | RFalse

datatype sink_call = SinkError string | SinkLog string | SinkAlarm string | SinkProgress string

datatype event =
    Log log_entry
  | AddScanError string string string string
  | AddScanLog string string string string
  | Forwarded sink_call
  | KbNew nat
  | KbConnect nat
  | SelectKb nat bool
  | AddSingleItem string "string list"
  | RemoveListItem string nat
  | ReleaseDb nat
  | Popen "string list"
  | Sleep nat
  | ScanIsStopped bool

text \<open>
  \<open>AddScanError scan_id host name value\<close> and \<open>AddScanLog scan_id host name value\<close> are
  the calls of \<open>add_scan_error\<close> and \<open>add_scan_log\<close>; \<open>SelectKb i set_global\<close> is
  \<open>select_kb\<close>; \<open>ScanIsStopped b\<close> is a call of \<open>scan_is_stopped\<close> that answered \<open>b\<close>.
  Indices of the store are natural numbers.
\<close>

record db_view =
  db :: nat
  scan_id_item :: "string option"
  host_scan_end_time :: "string option"
  host_scan_start_time :: "string option"
  forwarded :: "sink_call list"
  drain_error :: "py_error option"
  lifecycle :: "string option"

record tick =
  stop_marker :: "string option"
  dbindex :: "db_view list"

text \<open>
  The environment of one scan: what the base class holds for the scan (ports, options,
  credentials, the VT selection, which is \<open>None\<close> where the source compares with the
  empty string), the index \<open>kb_new\<close> allocates, the identifier \<open>uuid4\<close> mints, whether
  \<open>Popen\<close> succeeds (\<open>None\<close> is \<open>OSError\<close>) and with which pid, the markers read one
  after the other while waiting for the engine, and what the store shows at each round
  of the polling loop. Both loops may run for ever; a list of observations that ends
  before the loop does leaves the scan without a return value.
\<close>

record scan_env =
  scan_ports :: string
  scan_options :: "(string, pyval) dict"
  scan_credentials :: credentials
  scan_vts :: "vt_selection option"
  kb_new_index :: nat
  uuid4 :: string
  db_address :: string
  feed_version :: string
  popen_pid :: "nat option"
  ready_markers :: "string option list"
  ticks :: "tick list"

type_synonym 'a run = "event list \<times> 'a"

definition after :: "event list \<Rightarrow> 'a run \<Rightarrow> 'a run" where
  "after evs r = (evs @ fst r, snd r)"

definition nonempty :: "string option \<Rightarrow> bool" where
  "nonempty v = (case v of None \<Rightarrow> False | Some s \<Rightarrow> s \<noteq> [])"

text \<open>\<open>get_openvas_timestamp_scan_host\<close> (lines 754 to 765).\<close>

definition get_openvas_timestamp_scan_host :: "string \<Rightarrow> string \<Rightarrow> db_view \<Rightarrow> event list" where
  "get_openvas_timestamp_scan_host scan_id target v =
     (if nonempty (host_scan_end_time v)
      then [AddScanLog scan_id target ''HOST_END'' (the (host_scan_end_time v))]
      else if nonempty (host_scan_start_time v)
      then [AddScanLog scan_id target ''HOST_START'' (the (host_scan_start_time v))]
      else [])"

text \<open>
  One pass of \<open>for i in list(dbs)\<close> (lines 1087 to 1103). The flag \<open>no_id_found\<close> is
  passed along and returned.
\<close>

fun sweep ::
  "nat \<Rightarrow> string \<Rightarrow> string \<Rightarrow> string \<Rightarrow> db_view list \<Rightarrow> bool \<Rightarrow> (py_error + bool) run" where
  "sweep main_kbindex openvas_scan_id scan_id target [] no_id_found = ([], Inr no_id_found)"
| "sweep main_kbindex openvas_scan_id scan_id target (v # rest) no_id_found =
     (if db v = main_kbindex
      then sweep main_kbindex openvas_scan_id scan_id target rest no_id_found
      else if \<not> nonempty (scan_id_item v)
      then after [SelectKb (db v) True]
             (sweep main_kbindex openvas_scan_id scan_id target rest no_id_found)
      else if scan_id_item v = Some openvas_scan_id
      then
        (let drained =
               [SelectKb (db v) True] @ get_openvas_timestamp_scan_host scan_id target v
               @ map Forwarded (forwarded v)
         in case drain_error v of
              Some e \<Rightarrow> (drained, Inl e)
            | None \<Rightarrow>
                after
                  (drained
                   @ (if lifecycle v = Some ''finished''
                      then [SelectKb main_kbindex False,
                            RemoveListItem ''internal/dbindex'' (db v),
                            ReleaseDb (db v)]
                      else []))
                  (sweep main_kbindex openvas_scan_id scan_id target rest False))
      else after [SelectKb (db v) True]
             (sweep main_kbindex openvas_scan_id scan_id target rest no_id_found))"

text \<open>
  The polling loop \<open>while True\<close> (lines 1077 to 1108), one round per observation, and
  what follows it (lines 1110 to 1112). \<open>scan_is_stopped\<close> connects to the main KB and
  compares the marker of the scan with \<open>stop_all\<close>.
\<close>

fun poll ::
  "nat \<Rightarrow> string \<Rightarrow> string \<Rightarrow> string \<Rightarrow> tick list \<Rightarrow> bool
     \<Rightarrow> (py_error + retval) option run" where
  "poll main_kbindex openvas_scan_id scan_id target [] no_id_found = ([], None)"
| "poll main_kbindex openvas_scan_id scan_id target (t # ts) no_id_found =
     (let stopped = (stop_marker t = Some ''stop_all'');
          checked = [Sleep 3, KbConnect main_kbindex, ScanIsStopped stopped]
      in if stopped then (checked, Some (Inr (RInt 1)))
         else
           (case sweep main_kbindex openvas_scan_id scan_id target (dbindex t) no_id_found of
              (evs, Inl e) \<Rightarrow> (checked @ [KbConnect main_kbindex] @ evs, Some (Inl e))
            | (evs, Inr no_id_found') \<Rightarrow>
                if no_id_found'
                then (checked @ [KbConnect main_kbindex] @ evs @ [ReleaseDb main_kbindex],
                      Some (Inr (RInt 1)))
                else after (checked @ [KbConnect main_kbindex] @ evs)
                       (poll main_kbindex openvas_scan_id scan_id target ts True)))"

text \<open>
  The wait for the engine (lines 1073 and 1074): the result says whether the marker was
  seen to leave \<open>new\<close>.
\<close>

fun wait_ready :: "string option list \<Rightarrow> bool run" where
  "wait_ready [] = ([], False)"
| "wait_ready (m # ms) =
     (if m = Some ''new'' then after [Sleep 1] (wait_ready ms) else ([], True))"

text \<open>
  Lines 1046 to 1112: the three log entries (\<open>announce\<close>), the engine process, the two
  loops. The attempt to start the process is recorded also when it fails.
\<close>

definition announce :: "scan_env \<Rightarrow> string \<Rightarrow> string \<Rightarrow> event list" where
  "announce env scan_id target =
     [AddScanLog scan_id target ''OpenVAS summary''
        (''An OpenVAS Scanner was started for '' @ target @ ''.''),
      AddScanLog scan_id target ''KB location Found''
        (''KB location path was found: '' @ db_address env @ ''.''),
      AddScanLog scan_id target ''Feed Update''
        (''Feed version: '' @ feed_version env @ ''.'')]"

definition start_engine ::
  "scan_env \<Rightarrow> string \<Rightarrow> string \<Rightarrow> (py_error + retval) option run" where
  "start_engine env scan_id target =
     (let main_kbindex = kb_new_index env;
          openvas_scan_id = uuid4 env;
          cmd = [''openvassd'', ''--scan-start'', openvas_scan_id]
      in case popen_pid env of
           None \<Rightarrow> (announce env scan_id target @ [Popen cmd], Some (Inr RFalse))
         | Some ovas_pid \<Rightarrow>
             after
               (announce env scan_id target
                @ [Popen cmd,
                   Log (Debug (''pid = '' @ str_of_nat ovas_pid)),
                   AddSingleItem ''internal/ovas_pid'' [str_of_nat ovas_pid]])
               (case wait_ready (ready_markers env) of
                  (evs, False) \<Rightarrow> (evs, None)
                | (evs, True) \<Rightarrow>
                    after evs
                      (poll main_kbindex openvas_scan_id scan_id target (ticks env) False)))"

text \<open>
  Lines 977 to 1044: the session, the preferences written under the scan's identifier,
  the credentials and the plugins to run. \<open>store_session\<close> is lines 978 to 1017,
  \<open>store_credentials\<close> lines 1019 to 1024, \<open>store_plugins\<close> lines 1030 to 1039; the
  argument \<open>scanprefs\<close> is the key \<open>internal/<openvas_scan_id>/scanprefs\<close>.
\<close>

definition scanprefs_key :: "scan_env \<Rightarrow> string" where
  "scanprefs_key env = ''internal/'' @ uuid4 env @ ''/scanprefs''"

definition store_session :: "scan_env \<Rightarrow> string \<Rightarrow> string \<Rightarrow> string \<Rightarrow> event list" where
  "store_session env scan_id target ports =
     (let main_kbindex = kb_new_index env;
          openvas_scan_id = uuid4 env;
          scanprefs = scanprefs_key env;
          prefs_val = map (\<lambda>p. option_pref (fst p) (snd p)) (scan_options env)
      in [KbNew main_kbindex,
          AddSingleItem (''internal/'' @ openvas_scan_id) [''new''],
          AddSingleItem (''internal/'' @ scan_id @ ''/globalscanid'') [openvas_scan_id],
          AddSingleItem scanprefs prefs_val,
          AddSingleItem scanprefs [''ov_maindbid|||'' @ str_of_nat main_kbindex],
          AddSingleItem scanprefs [''TARGET|||'' @ target],
          AddSingleItem scanprefs [''port_range|||'' @ ports]])"

definition store_credentials :: "string \<Rightarrow> credentials \<Rightarrow> py_error + event list" where
  "store_credentials scanprefs credentials =
     (if credentials \<noteq> []
      then (case build_credentials_as_prefs credentials of
              Inl e \<Rightarrow> Inl e
            | Inr cred_prefs \<Rightarrow> Inr [AddSingleItem scanprefs cred_prefs])
      else Inr [])"

definition store_plugins :: "string \<Rightarrow> string list \<Rightarrow> (string \<times> string) list \<Rightarrow> event list" where
  "store_plugins scanprefs nvts_list nvts_params =
     AddSingleItem scanprefs [''plugin_set|||'' @ join '';'' nvts_list]
     # map (\<lambda>elem. AddSingleItem scanprefs [fst elem @ ''|||'' @ snd elem]) nvts_params"

definition write_prefs ::
  "vts_table \<Rightarrow> scan_env \<Rightarrow> string \<Rightarrow> string \<Rightarrow> string \<Rightarrow> (py_error + retval) option run" where
  "write_prefs table env scan_id target ports =
     (let main_kbindex = kb_new_index env;
          scanprefs = scanprefs_key env;
          written = store_session env scan_id target ports
      in case store_credentials scanprefs (scan_credentials env) of
           Inl e \<Rightarrow> (written, Some (Inl e))
         | Inr with_credentials \<Rightarrow>
             (case scan_vts env of
                None \<Rightarrow>
                  (written @ with_credentials
                   @ [ReleaseDb main_kbindex,
                      AddScanError scan_id target [] ''No VTS to run.''],
                   Some (Inr (RInt 2)))
              | Some nvts \<Rightarrow>
                  (case process_vts table nvts of
                     (lines, Inl e) \<Rightarrow>
                       (written @ with_credentials @ map Log lines, Some (Inl e))
                   | (lines, Inr (nvts_list, nvts_params)) \<Rightarrow>
                       after
                         (written @ with_credentials @ map Log lines
                          @ store_plugins scanprefs nvts_list nvts_params)
                         (start_engine env scan_id target))))"

definition exec_scan ::
  "daemon \<Rightarrow> scan_env \<Rightarrow> string \<Rightarrow> string \<Rightarrow> (py_error + retval) option run" where
  "exec_scan self env scan_id target =
     (if pending_feed self = Some True
      then ([Log (Info (scan_id
                @ '': There is a pending feed update. The scan can not be started.'')),
             AddScanError scan_id target []
               (''It was not possible to start the scan,''
                @ ''because a pending feed update. Please try later'')],
            Some (Inr (RInt 2)))
      else
        (let ports = scan_ports env
         in if ports = []
            then ([AddScanError scan_id target [] ''No port list defined.''],
                  Some (Inr (RInt 2)))
            else write_prefs (vts self) env scan_id target ports))"

text \<open>Properties of a trace.\<close>

fun is_kb_new :: "event \<Rightarrow> bool" where
  "is_kb_new (KbNew i) = True"
| "is_kb_new e = False"

fun is_popen :: "event \<Rightarrow> bool" where
  "is_popen (Popen cmd) = True"
| "is_popen e = False"

fun is_scan_error :: "event \<Rightarrow> bool" where
  "is_scan_error (AddScanError scan_id host nm v) = True"
| "is_scan_error e = False"

definition releases :: "nat \<Rightarrow> event list \<Rightarrow> nat" where
  "releases i evs = length (filter (\<lambda>e. e = ReleaseDb i) evs)"


section \<open>Example inputs\<close>

text \<open>
  A store with two VTs. In \<open>feed_with_severity_type\<close> the metadata of the second VT has
  the key \<open>severity_type\<close>; \<open>feed_plain\<close> is the same store without that key.
\<close>

definition metadata_a :: "(string, string) dict" where
  "metadata_a =
     [(''name'', ''Check A''), (''creation_date'', ''1500000000''),
      (''last_modification'', ''1500000001''), (''cvss_base_vector'', ''AV:N/AC:L/Au:N/C:N/I:N/A:N''),
      (''family'', ''General''), (''dependencies'', ''b.nasl, c.nasl''), (''qod'', ''70'')]"

definition metadata_b :: "(string, string) dict" where
  "metadata_b =
     [(''name'', ''Check B''), (''creation_date'', ''1500000002''),
      (''last_modification'', ''1500000003''), (''cvss_base_vector'', ''AV:N/AC:L/Au:N/C:P/I:N/A:N''),
      (''family'', ''General'')]"

definition feed_plain :: nvticache where
  "feed_plain =
     \<lparr>get_oids = [(''filename:a.nasl'', ''1.3.6.1.4.1.25623.1.0.1''),
                  (''filename:b.nasl'', ''1.3.6.1.4.1.25623.1.0.2'')],
      get_nvt_params = (\<lambda>vt_id. []),
      get_nvt_refs = (\<lambda>vt_id. []),
      get_nvt_metadata =
        (\<lambda>vt_id. if vt_id = ''1.3.6.1.4.1.25623.1.0.1'' then metadata_a else metadata_b),
      get_feed_version = ''201811061200''\<rparr>"

definition feed_with_severity_type :: nvticache where
  "feed_with_severity_type =
     feed_plain\<lparr>get_nvt_metadata :=
       (\<lambda>vt_id. if vt_id = ''1.3.6.1.4.1.25623.1.0.1'' then metadata_a
                 else metadata_b @ [(''severity_type'', ''cvss_base_v2'')])\<rparr>"

definition fresh_daemon :: daemon where
  "fresh_daemon =
     \<lparr>vts = [], vts_version = None, pending_feed = None, scan_processes = [], logged = []\<rparr>"

definition any_vt_id :: "string \<Rightarrow> bool" where
  "any_vt_id vt_id = True"

text \<open>A daemon with one finished and one live scan process, loaded from an older feed.\<close>

definition scanning_daemon :: daemon where
  "scanning_daemon =
     \<lparr>vts = [], vts_version = Some ''201811050900'', pending_feed = Some False,
      scan_processes = [(''scan-1'', False), (''scan-2'', True)], logged = []\<rparr>"

text \<open>
  A daemon that has loaded one VT of the family \<open>General\<close> with three declared
  parameters, and environments of a scan of one host: the engine starts, reports one
  host through the auxiliary KB 2 and finishes (\<open>env_finished\<close>); the client stops the
  scan before the first round (\<open>env_stopped\<close>); the VT selection is a group filter that
  matches no family (\<open>env_no_match\<close>).
\<close>

definition example_vt :: vt_entry where
  "example_vt =
     \<lparr>name = ''Check A'',
      vt_params =
        [(''timeout'', [(''type'', ''entry''), (''name'', ''timeout''),
                        (''description'', ''Script Timeout''), (''default'', ''320'')]),
         (''Retries'', [(''type'', ''integer''), (''name'', ''Retries''),
                        (''description'', ''Description''), (''default'', ''3'')]),
         (''Verbose'', [(''type'', ''checkbox''), (''name'', ''Verbose''),
                        (''description'', ''Description''), (''default'', ''no'')])],
      vt_refs = [],
      custom = [(''family'', ''General'')],
      vt_creation_time = ''1500000000'',
      vt_modification_time = ''1500000001'',
      vt_dependencies = [],
      summary = None, impact = None, affected = None, insight = None, solution = None,
      solution_t = None, detection = None, qod_t = None, qod_v = Some ''70'',
      severities =
        [(''severity_base_vector'', ''AV:N/AC:L/Au:N/C:N/I:N/A:N''),
         (''severity_type'', ''cvss_base_v2'')]\<rparr>"

definition example_daemon :: daemon where
  "example_daemon =
     \<lparr>vts = [(''1.3.6.1.4.1.25623.1.0.1'', example_vt)],
      vts_version = Some ''201811061200'', pending_feed = Some False,
      scan_processes = [], logged = []\<rparr>"

definition host_view :: db_view where
  "host_view =
     \<lparr>db = 2, scan_id_item = Some ''7e2b'', host_scan_end_time = None,
      host_scan_start_time = Some ''1541500000'', forwarded = [SinkLog ''open port''],
      drain_error = None, lifecycle = Some ''finished''\<rparr>"

definition env_finished :: scan_env where
  "env_finished =
     \<lparr>scan_ports = ''80,443'',
      scan_options = [(''safe_checks'', PInt 1)],
      scan_credentials = [],
      scan_vts = Some \<lparr>vt_groups = Some [], vt_single = [(''1.3.6.1.4.1.25623.1.0.1'', [])]\<rparr>,
      kb_new_index = 1,
      uuid4 = ''7e2b'',
      db_address = ''/tmp/redis.sock'',
      feed_version = ''201811061200'',
      popen_pid = Some 4711,
      ready_markers = [Some ''new'', Some ''ready''],
      ticks = [\<lparr>stop_marker = Some ''ready'', dbindex = [host_view]\<rparr>,
               \<lparr>stop_marker = Some ''ready'', dbindex = []\<rparr>]\<rparr>"

definition env_stopped :: scan_env where
  "env_stopped = env_finished\<lparr>ticks := [\<lparr>stop_marker = Some ''stop_all'', dbindex = [host_view]\<rparr>]\<rparr>"

definition env_no_match :: scan_env where
  "env_no_match =
     env_finished\<lparr>scan_vts := Some \<lparr>vt_groups = Some [''family=Nonexistent''], vt_single = []\<rparr>,
                  ticks := [\<lparr>stop_marker = Some ''ready'', dbindex = []\<rparr>,
                            \<lparr>stop_marker = Some ''ready'', dbindex = []\<rparr>]\<rparr>"





section \<open>Properties of the credential builder\<close>

lemma has_sep_iff: "has_sep s \<longleftrightarrow> is_pref_record s"
proof (induction s)
  case Nil
  then show ?case by (simp add: is_pref_record_def)
next
  case (Cons c cs)
  show ?case
  proof
    assume "has_sep (c # cs)"
    then consider "take 3 (c # cs) = ''|||''" | "has_sep cs" by auto
    then show "is_pref_record (c # cs)"
    proof cases
      case 1
      then have "c # cs = [] @ ''|||'' @ drop 3 (c # cs)"
        by (metis append_Nil append_take_drop_id)
      then show ?thesis unfolding is_pref_record_def by blast
    next
      case 2
      with Cons.IH obtain n v where "cs = n @ ''|||'' @ v" unfolding is_pref_record_def by blast
      then have "c # cs = (c # n) @ ''|||'' @ v" by simp
      then show ?thesis unfolding is_pref_record_def by blast
    qed
  next
    assume "is_pref_record (c # cs)"
    then obtain n v where nv: "c # cs = n @ ''|||'' @ v" unfolding is_pref_record_def by blast
    show "has_sep (c # cs)"
    proof (cases n)
      case Nil
      with nv have "take 3 (c # cs) = ''|||''" by simp
      then show ?thesis by simp
    next
      case (Cons a n')
      with nv have "cs = n' @ ''|||'' @ v" by simp
      then have "is_pref_record cs" unfolding is_pref_record_def by blast
      with Cons.IH show ?thesis by simp
    qed
  qed
qed

lemma is_pref_recordI: "is_pref_record (nm @ ''|||'' @ val)"
  unfolding is_pref_record_def by blast

lemma ssh_prefs_sep: "r \<in> set (ssh_prefs cp) \<Longrightarrow> is_pref_record r"
proof -
  assume a: "r \<in> set (ssh_prefs cp)"
  have 1: "is_pref_record (''auth_port_ssh'' @ ''|||'' @ v)" for v by (rule is_pref_recordI)
  have 2: "is_pref_record (''SSH Authorization[entry]:SSH login name:'' @ ''|||'' @ v)" for v
    by (rule is_pref_recordI)
  have 3: "is_pref_record (''SSH Authorization[password]:SSH password (unsafe!):'' @ ''|||'' @ v)" for v
    by (rule is_pref_recordI)
  have 4: "is_pref_record (''SSH Authorization[password]:SSH key passphrase:'' @ ''|||'' @ v)" for v
    by (rule is_pref_recordI)
  have 5: "is_pref_record (''SSH Authorization[file]:SSH private key:'' @ ''|||'' @ v)" for v
    by (rule is_pref_recordI)
  from a 1 2 3 4 5 show ?thesis
    by (auto simp: ssh_prefs_def Let_def split: if_splits)
qed

lemma smb_prefs_sep: "r \<in> set (smb_prefs cp) \<Longrightarrow> is_pref_record r"
proof -
  assume a: "r \<in> set (smb_prefs cp)"
  have 1: "is_pref_record (''SMB Authorization[entry]:SMB login:'' @ ''|||'' @ v)" for v
    by (rule is_pref_recordI)
  have 2: "is_pref_record (''SMB Authorization[password]:SMB password :'' @ ''|||'' @ v)" for v
    by (rule is_pref_recordI)
  from a 1 2 show ?thesis
    by (auto simp: smb_prefs_def Let_def)
qed

lemma esxi_prefs_sep: "r \<in> set (esxi_prefs cp) \<Longrightarrow> is_pref_record r"
proof -
  assume a: "r \<in> set (esxi_prefs cp)"
  have 1: "is_pref_record (''ESXi Authorization[entry]:ESXi login name:'' @ ''|||'' @ v)" for v
    by (rule is_pref_recordI)
  have 2: "is_pref_record (''ESXi Authorization[password]:ESXi login password:'' @ ''|||'' @ v)" for v
    by (rule is_pref_recordI)
  from a 1 2 show ?thesis
    by (auto simp: esxi_prefs_def Let_def)
qed

lemma credential_prefs_sep:
  "service \<noteq> ''snmp'' \<Longrightarrow> r \<in> set (credential_prefs service cp) \<Longrightarrow> is_pref_record r"
  by (auto simp: credential_prefs_def split: if_splits
      dest: ssh_prefs_sep smb_prefs_sep esxi_prefs_sep)

lemma credentials_loop_eq:
  "fst ` set items \<subseteq> fst ` set credentials \<Longrightarrow>
   credentials_loop credentials items acc =
     Inr (acc @ concat (map (\<lambda>c. credential_prefs (fst c) (the (map_of credentials (fst c)))) items))"
proof (induction items arbitrary: acc)
  case Nil
  then show ?case by simp
next
  case (Cons c items)
  from Cons.prems have "fst c \<in> fst ` set credentials" by simp
  then obtain cp where cp: "map_of credentials (fst c) = Some cp"
    by (metis domD dom_map_of_conv_image_fst)
  from Cons.prems have sub: "fst ` set items \<subseteq> fst ` set credentials" by simp
  show ?case
    by (simp add: Let_def dict_get_def cp Cons.IH [OF sub])
qed

lemma build_credentials_eq:
  "build_credentials_as_prefs credentials =
     Inr (concat (map (\<lambda>c. credential_prefs (fst c) (the (map_of credentials (fst c)))) credentials))"
  unfolding build_credentials_as_prefs_def by (simp add: credentials_loop_eq)

lemma credential_prefs_unknown:
  "service \<notin> known_services \<Longrightarrow> credential_prefs service cp = []"
  by (simp add: known_services_def credential_prefs_def)

lemma map_of_filter_fst:
  "P k \<Longrightarrow> map_of (filter (\<lambda>c. P (fst c)) xs) k = map_of xs k"
  by (induction xs) auto

lemma concat_known_only:
  "concat (map (\<lambda>c. credential_prefs (fst c) (g (fst c))) xs) =
   concat (map (\<lambda>c. credential_prefs (fst c) (g (fst c)))
     (filter (\<lambda>c. fst c \<in> known_services) xs))"
  by (induction xs) (auto simp: credential_prefs_unknown)

lemma concat_cong_known:
  "(\<And>k. k \<in> known_services \<Longrightarrow> g k = h k) \<Longrightarrow>
   concat (map (\<lambda>c. credential_prefs (fst c) (g (fst c)))
     (filter (\<lambda>c. fst c \<in> known_services) xs)) =
   concat (map (\<lambda>c. credential_prefs (fst c) (h (fst c)))
     (filter (\<lambda>c. fst c \<in> known_services) xs))"
  by (induction xs) auto

text \<open>
  Claim C8. For every credential map whose service keys are all outside ssh, smb, esxi
  and snmp, \<open>build_credentials_as_prefs\<close> returns the empty list and raises no error;
  in a mixed map the entries under unknown service keys contribute no records: the
  result is that of the map restricted to the four known services.
\<close>

theorem build_credentials_unknown_services:
  "build_credentials_as_prefs credentials =
     build_credentials_as_prefs (filter (\<lambda>c. fst c \<in> known_services) credentials)
   \<and> ((\<forall>c \<in> set credentials. fst c \<notin> known_services) \<longrightarrow>
        build_credentials_as_prefs credentials = Inr [])"
proof
  let ?known = "filter (\<lambda>c. fst c \<in> known_services) credentials"
  have "concat (map (\<lambda>c. credential_prefs (fst c) (the (map_of credentials (fst c)))) credentials)
      = concat (map (\<lambda>c. credential_prefs (fst c) (the (map_of credentials (fst c)))) ?known)"
    by (rule concat_known_only)
  also have "\<dots> = concat (map (\<lambda>c. credential_prefs (fst c) (the (map_of ?known (fst c)))) ?known)"
    by (rule concat_cong_known) (simp add: map_of_filter_fst [where P = "\<lambda>k. k \<in> known_services"])
  finally show "build_credentials_as_prefs credentials = build_credentials_as_prefs ?known"
    by (simp add: build_credentials_eq)
next
  show "(\<forall>c \<in> set credentials. fst c \<notin> known_services) \<longrightarrow>
        build_credentials_as_prefs credentials = Inr []"
    by (simp add: build_credentials_eq credential_prefs_unknown)
qed

theorem build_credentials_unknown_services_witness:
  "build_credentials_as_prefs
       [(''ftp'', [(''username'', ''u''), (''password'', ''p'')]), (''imap'', [])] = Inr []
   \<and> build_credentials_as_prefs
       [(''ftp'', [(''username'', ''u'')]), (''smb'', [(''username'', ''bob'')])]
     = build_credentials_as_prefs [(''smb'', [(''username'', ''bob'')])]"
proof -
  have h: "\<forall>c \<in> set [(''ftp'', [(''username'', ''u''), (''password'', ''p'')]), (''imap'', [])].
      fst c \<notin> known_services"
    by (simp add: known_services_def)
  have m: "filter (\<lambda>c. fst c \<in> known_services)
       [(''ftp'', [(''username'', ''u'')]), (''smb'', [(''username'', ''bob'')])]
     = [(''smb'', [(''username'', ''bob'')])]"
    by (simp add: known_services_def)
  from build_credentials_unknown_services
      [of "[(''ftp'', [(''username'', ''u''), (''password'', ''p'')]), (''imap'', [])]"]
    build_credentials_unknown_services
      [of "[(''ftp'', [(''username'', ''u'')]), (''smb'', [(''username'', ''bob'')])]"]
    h m
  show ?thesis by metis
qed

text \<open>
  Claim C7. For the credential map with the one service ssh, of type up, user name root
  and password x, the result holds the login-name record for root and the SSH password
  record carrying x, and no record of a private key or of a key passphrase.
\<close>

theorem build_credentials_ssh_up:
  "build_credentials_as_prefs
     [(''ssh'', [(''type'', ''up''), (''username'', ''root''), (''password'', ''x'')])]
   = Inr [''auth_port_ssh|||'',
          ''SSH Authorization[entry]:SSH login name:|||root'',
          ''SSH Authorization[password]:SSH password (unsafe!):|||x'']
   \<and> filter (\<lambda>r. starts_with ''SSH Authorization[file]:SSH private key:'' r
               \<or> starts_with ''SSH Authorization[password]:SSH key passphrase:'' r)
        [''auth_port_ssh|||'',
         ''SSH Authorization[entry]:SSH login name:|||root'',
         ''SSH Authorization[password]:SSH password (unsafe!):|||x''] = []"
  by (simp add: build_credentials_as_prefs_def dict_get_def dict_get_default_def
      credential_prefs_def ssh_prefs_def starts_with_def)

text \<open>
  Claim C6 says that every string \<open>build_credentials_as_prefs\<close> produces has the form
  \<open>name|||value\<close>, the snmp records in particular. The records of ssh, smb and esxi all
  have it (\<open>credential_prefs_sep\<close>); the six snmp records are built without the
  delimiter. For an snmp credential with community public the first record is the one
  below, and it is no preference record.
\<close>

theorem build_credentials_snmp_no_delimiter:
  "build_credentials_as_prefs [(''snmp'', [(''community'', ''public'')])]
   = Inr [''SNMP Authorization[password]:SNMP Community:public'',
          ''SNMP Authorization[entry]:SNMPv3 Username:'',
          ''SNMP Authorization[password]:SNMPv3 Password:'',
          ''SNMP Authorization[radio]:SNMPv3 Authentication Algorithm:'',
          ''SNMP Authorization[password]:SNMPv3 Privacy Password:'',
          ''SNMP Authorization[radio]:SNMPv3 Privacy Algorithm:'']
   \<and> \<not> is_pref_record ''SNMP Authorization[password]:SNMP Community:public''"
proof
  show "build_credentials_as_prefs [(''snmp'', [(''community'', ''public'')])]
   = Inr [''SNMP Authorization[password]:SNMP Community:public'',
          ''SNMP Authorization[entry]:SNMPv3 Username:'',
          ''SNMP Authorization[password]:SNMPv3 Password:'',
          ''SNMP Authorization[radio]:SNMPv3 Authentication Algorithm:'',
          ''SNMP Authorization[password]:SNMPv3 Privacy Password:'',
          ''SNMP Authorization[radio]:SNMPv3 Privacy Algorithm:'']"
    by (simp add: build_credentials_as_prefs_def dict_get_def dict_get_default_def
      credential_prefs_def snmp_prefs_def)
next
  have "\<not> has_sep ''SNMP Authorization[password]:SNMP Community:public''"
    by simp
  then show "\<not> is_pref_record ''SNMP Authorization[password]:SNMP Community:public''"
    using has_sep_iff by blast
qed

section \<open>Properties of the VT metadata cache\<close>

lemma dict_has_remove [simp]: "dict_has (dict_remove d k) k' = (k \<noteq> k' \<and> dict_has d k')"
  by (induction d) (auto simp: dict_has_def dict_remove_def)

lemma snd_pop_if_present [simp]: "snd (pop_if_present d k) = dict_remove d k"
  by (simp add: pop_if_present_def)

lemma pop_texts_keeps_severity_type [simp]:
  "dict_has (snd (pop_texts c)) ''severity_type'' = dict_has c ''severity_type''"
  by (simp add: pop_texts_def Let_def case_prod_beta)

lemma pop_texts_keeps_vectors [simp]:
  "dict_has (snd (pop_texts c)) ''severity_base_vector'' = dict_has c ''severity_base_vector''"
  "dict_has (snd (pop_texts c)) ''cvss_base_vector'' = dict_has c ''cvss_base_vector''"
  by (simp_all add: pop_texts_def Let_def case_prod_beta)

lemma pop_cases:
  "pop d k = (if dict_has d k then Inr (the (map_of d k), dict_remove d k) else Inl (KeyError k))"
  by (auto simp: pop_def dict_has_def split: option.splits)

lemma pop_severity_Inr:
  "pop_severity c = Inr x \<Longrightarrow> \<not> dict_has c ''severity_type''"
  by (auto simp: pop_severity_def err_bind_def pop_cases split: if_splits)

lemma pop_severity_NameError:
  "dict_has c ''severity_type'' \<Longrightarrow>
   dict_has c ''severity_base_vector'' \<or> dict_has c ''cvss_base_vector'' \<Longrightarrow>
   pop_severity c = Inl (NameError ''custom'')"
  by (auto simp: pop_severity_def err_bind_def pop_cases)

lemma vt_of_metadata_Inr:
  "vt_of_metadata oids params refs m = Inr entry \<Longrightarrow> \<not> dict_has m ''severity_type''"
  by (auto simp: vt_of_metadata_def err_bind_def pop_cases
      split: if_splits sum.splits dest: pop_severity_Inr)

lemma vt_of_metadata_NameError:
  "has_required_keys m \<Longrightarrow> dict_has m ''severity_type'' \<Longrightarrow>
   vt_of_metadata oids params refs m = Inl (NameError ''custom'')"
  by (auto simp: vt_of_metadata_def has_required_keys_def err_bind_def pop_cases
      pop_severity_NameError)

lemma load_vts_loop_Inr:
  "load_vts_loop vt_id_ok nvti oids items self = Inr self' \<Longrightarrow>
   \<forall>p \<in> set items. \<not> dict_has (get_nvt_metadata nvti (snd p)) ''severity_type''"
proof (induction items arbitrary: self)
  case Nil
  then show ?case by simp
next
  case (Cons item items)
  obtain filename vt_id where item: "item = (filename, vt_id)" by (cases item)
  from Cons.prems obtain entry where
    entry: "vt_of_metadata oids (get_nvt_params nvti vt_id) (get_nvt_refs nvti vt_id)
              (get_nvt_metadata nvti vt_id) = Inr entry"
    by (auto simp: item split: sum.splits)
  with Cons.prems obtain self1 where
    "load_vts_loop vt_id_ok nvti oids items self1 = Inr self'"
    by (auto simp: item Let_def split: prod.splits)
  then have "\<forall>p \<in> set items. \<not> dict_has (get_nvt_metadata nvti (snd p)) ''severity_type''"
    by (rule Cons.IH)
  moreover have "\<not> dict_has (get_nvt_metadata nvti vt_id) ''severity_type''"
    using entry by (rule vt_of_metadata_Inr)
  ultimately show ?case by (simp add: item)
qed

lemma load_vts_loop_frame:
  "load_vts_loop vt_id_ok nvti oids items self = r \<Longrightarrow>
   (case r of Inl (e, st) \<Rightarrow> st | Inr st \<Rightarrow> st) = st' \<Longrightarrow>
   vts_version st' = vts_version self \<and> pending_feed st' = pending_feed self"
proof (induction items arbitrary: self)
  case Nil
  then show ?case by auto
next
  case (Cons item items)
  obtain filename vt_id where item: "item = (filename, vt_id)" by (cases item)
  show ?case
  proof (cases "vt_of_metadata oids (get_nvt_params nvti vt_id) (get_nvt_refs nvti vt_id)
              (get_nvt_metadata nvti vt_id)")
    case (Inl e)
    with Cons.prems show ?thesis by (auto simp: item)
  next
    case (Inr entry)
    obtain ret table where add: "add_vt vt_id_ok (vts self) vt_id entry = (ret, table)"
      by (cases "add_vt vt_id_ok (vts self) vt_id entry")
    let ?lines = "(if ret = - 1 then [Info (''Dupplicated VT with OID: '' @ vt_id)] else [])
                 @ (if ret = - 2 then [Info (vt_id @ '': Invalid OID.'')] else [])"
    let ?self1 = "self\<lparr>vts := table, logged := logged self @ ?lines\<rparr>"
    from Cons.prems(1) have "load_vts_loop vt_id_ok nvti oids items ?self1 = r"
      by (simp add: item Inr add Let_def)
    from Cons.IH [OF this Cons.prems(2)] show ?thesis by simp
  qed
qed

lemma load_vts_loop_append:
  "load_vts_loop vt_id_ok nvti oids pre self = Inr st1 \<Longrightarrow>
   load_vts_loop vt_id_ok nvti oids (pre @ rest) self = load_vts_loop vt_id_ok nvti oids rest st1"
proof (induction pre arbitrary: self)
  case Nil
  then show ?case by simp
next
  case (Cons item pre)
  obtain filename vt_id where item: "item = (filename, vt_id)" by (cases item)
  from Cons.prems show ?case
    by (auto simp: item Let_def split: sum.splits prod.splits intro: Cons.IH)
qed

lemma add_vt_keys:
  "add_vt vt_id_ok table vt_id entry = (ret, table') \<Longrightarrow>
   set (map fst table') \<subseteq> insert vt_id (set (map fst table))"
  by (auto simp: add_vt_def split: if_splits)

lemma load_vts_loop_keys:
  "load_vts_loop vt_id_ok nvti oids items self = r \<Longrightarrow>
   (case r of Inl (e, st) \<Rightarrow> st | Inr st \<Rightarrow> st) = st' \<Longrightarrow>
   set (map fst (vts st')) \<subseteq> set (map fst (vts self)) \<union> snd ` set items"
proof (induction items arbitrary: self)
  case Nil
  then show ?case by auto
next
  case (Cons item items)
  obtain filename vt_id where item: "item = (filename, vt_id)" by (cases item)
  show ?case
  proof (cases "vt_of_metadata oids (get_nvt_params nvti vt_id) (get_nvt_refs nvti vt_id)
              (get_nvt_metadata nvti vt_id)")
    case (Inl e)
    with Cons.prems show ?thesis by (auto simp: item)
  next
    case (Inr entry)
    obtain ret table where add: "add_vt vt_id_ok (vts self) vt_id entry = (ret, table)"
      by (cases "add_vt vt_id_ok (vts self) vt_id entry")
    let ?lines = "(if ret = - 1 then [Info (''Dupplicated VT with OID: '' @ vt_id)] else [])
                 @ (if ret = - 2 then [Info (vt_id @ '': Invalid OID.'')] else [])"
    let ?self1 = "self\<lparr>vts := table, logged := logged self @ ?lines\<rparr>"
    from Cons.prems(1) have "load_vts_loop vt_id_ok nvti oids items ?self1 = r"
      by (simp add: item Inr add Let_def)
    from Cons.IH [OF this Cons.prems(2)]
    have "set (map fst (vts st')) \<subseteq> set (map fst table) \<union> snd ` set items" by simp
    with add_vt_keys [OF add] show ?thesis by (simp add: item) blast
  qed
qed

lemma load_vts_loop_stops:
  assumes "dict_has (get_nvt_metadata nvti (snd p)) ''severity_type''"
  shows "\<exists>e st. load_vts_loop vt_id_ok nvti oids (pre @ p # post) self = Inl (e, st)
           \<and> set (map fst (vts st)) \<subseteq> set (map fst (vts self)) \<union> snd ` set pre"
proof (cases "load_vts_loop vt_id_ok nvti oids pre self")
  case (Inl x)
  obtain e st where x: "x = (e, st)" by (cases x)
  have "load_vts_loop vt_id_ok nvti oids (pre @ p # post) self = Inl (e, st)"
    using Inl x
  proof (induction pre arbitrary: self)
    case Nil
    then show ?case by simp
  next
    case (Cons item pre)
    obtain filename vt_id where item: "item = (filename, vt_id)" by (cases item)
    from Cons.prems show ?case
      by (auto simp: item Let_def split: sum.splits prod.splits intro: Cons.IH)
  qed
  moreover from load_vts_loop_keys [OF Inl, of st] x
  have "set (map fst (vts st)) \<subseteq> set (map fst (vts self)) \<union> snd ` set pre" by simp
  ultimately show ?thesis by blast
next
  case (Inr st1)
  obtain filename vt_id where p: "p = (filename, vt_id)" by (cases p)
  from assms obtain e where
    "vt_of_metadata oids (get_nvt_params nvti vt_id) (get_nvt_refs nvti vt_id)
        (get_nvt_metadata nvti vt_id) = Inl e"
    using vt_of_metadata_Inr [of oids "get_nvt_params nvti vt_id" "get_nvt_refs nvti vt_id"
        "get_nvt_metadata nvti vt_id"]
    by (cases "vt_of_metadata oids (get_nvt_params nvti vt_id) (get_nvt_refs nvti vt_id)
        (get_nvt_metadata nvti vt_id)") (auto simp: p)
  then have "load_vts_loop vt_id_ok nvti oids (p # post) st1 = Inl (e, st1)"
    by (simp add: p)
  with load_vts_loop_append [OF Inr, of "p # post"]
  have "load_vts_loop vt_id_ok nvti oids (pre @ p # post) self = Inl (e, st1)" by simp
  moreover from load_vts_loop_keys [OF Inr, of st1]
  have "set (map fst (vts st1)) \<subseteq> set (map fst (vts self)) \<union> snd ` set pre" by simp
  ultimately show ?thesis by blast
qed


text \<open>
  Claim C10. \<open>load_vts\<close> completes only if no enumerated VT's metadata map has the key
  \<open>severity_type\<close>. When the metadata of an enumerated VT has it, \<open>load_vts\<close> raises and
  the load is aborted at that entry at the latest: no VT enumerated at or after it is
  added to the table, and the feed version and the pending flag stay as they were. The
  exception is the \<open>NameError\<close> for the unbound name \<open>custom\<close>, raised at that entry with
  the table as it stood before it, whenever the entries before it load and the entry
  itself has the keys that are popped unconditionally (otherwise a \<open>KeyError\<close> has ended
  the load before line 343 is reached).
\<close>

theorem load_vts_severity_type:
  "(load_vts vt_id_ok nvti self = Inr self' \<longrightarrow>
      (\<forall>p \<in> set (py_dict (get_oids nvti)).
         \<not> dict_has (get_nvt_metadata nvti (snd p)) ''severity_type''))
   \<and> (py_dict (get_oids nvti) = pre @ p # post
        \<and> dict_has (get_nvt_metadata nvti (snd p)) ''severity_type'' \<longrightarrow>
        (\<exists>e st. load_vts vt_id_ok nvti self = Inl (e, st)
           \<and> vts_version st = vts_version self \<and> pending_feed st = pending_feed self
           \<and> set (map fst (vts st)) \<subseteq> set (map fst (vts self)) \<union> snd ` set pre))
   \<and> (py_dict (get_oids nvti) = pre @ p # post
        \<and> load_vts_loop vt_id_ok nvti (py_dict (get_oids nvti)) pre
            (self\<lparr>logged := logged self @ [Debug ''Loading vts in memory.'']\<rparr>) = Inr st1
        \<and> has_required_keys (get_nvt_metadata nvti (snd p))
        \<and> dict_has (get_nvt_metadata nvti (snd p)) ''severity_type'' \<longrightarrow>
        load_vts vt_id_ok nvti self = Inl (NameError ''custom'', st1))"
proof -
  let ?oids = "py_dict (get_oids nvti)"
  let ?self1 = "self\<lparr>logged := logged self @ [Debug ''Loading vts in memory.'']\<rparr>"
  let ?loop = "load_vts_loop vt_id_ok nvti ?oids ?oids ?self1"
  have completes: "\<forall>p \<in> set ?oids. \<not> dict_has (get_nvt_metadata nvti (snd p)) ''severity_type''"
    if "load_vts vt_id_ok nvti self = Inr self'"
  proof -
    from that obtain self2 where "?loop = Inr self2"
      by (auto simp: load_vts_def Let_def split: sum.splits)
    then show ?thesis by (rule load_vts_loop_Inr)
  qed
  have aborts: "\<exists>e st. load_vts vt_id_ok nvti self = Inl (e, st)
           \<and> vts_version st = vts_version self \<and> pending_feed st = pending_feed self
           \<and> set (map fst (vts st)) \<subseteq> set (map fst (vts self)) \<union> snd ` set pre"
    if split: "?oids = pre @ p # post"
      and sev: "dict_has (get_nvt_metadata nvti (snd p)) ''severity_type''"
  proof -
    from load_vts_loop_stops [OF sev, of vt_id_ok ?oids pre post ?self1] split
    obtain e st where loop: "?loop = Inl (e, st)"
      and keys: "set (map fst (vts st)) \<subseteq> set (map fst (vts ?self1)) \<union> snd ` set pre"
      by auto
    from load_vts_loop_frame [of vt_id_ok nvti ?oids ?oids ?self1 "Inl (e, st)" st] loop
    have "vts_version st = vts_version self \<and> pending_feed st = pending_feed self" by simp
    moreover have "load_vts vt_id_ok nvti self = Inl (e, st)"
      using loop by (simp add: load_vts_def Let_def)
    moreover from keys
    have "set (map fst (vts st)) \<subseteq> set (map fst (vts self)) \<union> snd ` set pre" by simp
    ultimately show ?thesis by blast
  qed
  have at_entry: "load_vts vt_id_ok nvti self = Inl (NameError ''custom'', st1)"
    if split: "?oids = pre @ p # post"
      and pre: "load_vts_loop vt_id_ok nvti ?oids pre ?self1 = Inr st1"
      and keys: "has_required_keys (get_nvt_metadata nvti (snd p))"
      and sev: "dict_has (get_nvt_metadata nvti (snd p)) ''severity_type''"
  proof -
    obtain filename vt_id where p: "p = (filename, vt_id)" by (cases p)
    have "load_vts_loop vt_id_ok nvti ?oids (pre @ p # post) ?self1
            = load_vts_loop vt_id_ok nvti ?oids (p # post) st1"
      using pre by (rule load_vts_loop_append)
    also have "\<dots> = Inl (NameError ''custom'', st1)"
      using keys sev by (simp add: p vt_of_metadata_NameError)
    finally have "load_vts_loop vt_id_ok nvti ?oids (pre @ p # post) ?self1
            = Inl (NameError ''custom'', st1)" .
    then have "?loop = Inl (NameError ''custom'', st1)"
      using split by simp
    then show ?thesis by (simp add: load_vts_def Let_def)
  qed
  from completes aborts at_entry show ?thesis by blast
qed

theorem load_vts_severity_type_witness:
  "(\<exists>st. load_vts any_vt_id feed_with_severity_type fresh_daemon = Inl (NameError ''custom'', st)
         \<and> vts_version st = None \<and> pending_feed st = None
         \<and> set (map fst (vts st)) \<subseteq> {''1.3.6.1.4.1.25623.1.0.1''})
   \<and> (\<exists>self'. load_vts any_vt_id feed_plain fresh_daemon = Inr self')
   \<and> \<not> (\<exists>p \<in> set (py_dict (get_oids feed_plain)).
         dict_has (get_nvt_metadata feed_plain (snd p)) ''severity_type'')"
proof -
  let ?a = "(''filename:a.nasl'', ''1.3.6.1.4.1.25623.1.0.1'')"
  let ?b = "(''filename:b.nasl'', ''1.3.6.1.4.1.25623.1.0.2'')"
  let ?F = feed_with_severity_type
  let ?self1 = "fresh_daemon\<lparr>logged := logged fresh_daemon @ [Debug ''Loading vts in memory.'']\<rparr>"
  have oids: "py_dict (get_oids ?F) = [?a] @ ?b # []"
    by code_simp
  have "\<not> isl (load_vts_loop any_vt_id ?F (py_dict (get_oids ?F)) [?a] ?self1)"
    by code_simp
  then obtain st1 where pre: "load_vts_loop any_vt_id ?F (py_dict (get_oids ?F)) [?a] ?self1 = Inr st1"
    by (cases "load_vts_loop any_vt_id ?F (py_dict (get_oids ?F)) [?a] ?self1") auto
  have keys: "has_required_keys (get_nvt_metadata ?F (snd ?b))"
    by code_simp
  have sev: "dict_has (get_nvt_metadata ?F (snd ?b)) ''severity_type''"
    by code_simp
  from load_vts_severity_type [of any_vt_id ?F fresh_daemon fresh_daemon "[?a]" ?b "[]" st1]
    oids pre keys sev
  have at: "load_vts any_vt_id ?F fresh_daemon = Inl (NameError ''custom'', st1)"
    by blast
  from load_vts_severity_type [of any_vt_id ?F fresh_daemon fresh_daemon "[?a]" ?b "[]" st1]
    oids sev
  obtain e st where "load_vts any_vt_id ?F fresh_daemon = Inl (e, st)"
    and "vts_version st = vts_version fresh_daemon" and "pending_feed st = pending_feed fresh_daemon"
    and "set (map fst (vts st)) \<subseteq> set (map fst (vts fresh_daemon)) \<union> snd ` set [?a]"
    by blast
  with at have frame: "vts_version st1 = None \<and> pending_feed st1 = None
      \<and> set (map fst (vts st1)) \<subseteq> {''1.3.6.1.4.1.25623.1.0.1''}"
    by (simp add: fresh_daemon_def)
  have "\<not> isl (load_vts any_vt_id feed_plain fresh_daemon)"
    by code_simp
  then obtain self' where plain: "load_vts any_vt_id feed_plain fresh_daemon = Inr self'"
    by (cases "load_vts any_vt_id feed_plain fresh_daemon") auto
  with load_vts_severity_type [of any_vt_id feed_plain fresh_daemon self' "[]" ?a "[]" fresh_daemon]
  have none: "\<forall>p \<in> set (py_dict (get_oids feed_plain)).
         \<not> dict_has (get_nvt_metadata feed_plain (snd p)) ''severity_type''"
    by blast
  from at frame plain none show ?thesis by blast
qed

lemma check_feed_running_stale:
  assumes "running_scan self" and "vts_version self \<noteq> Some (get_feed_version nvti)"
  shows "check_feed vt_id_ok nvti self =
           Inr (if pending_feed self = Some True then self
                else self\<lparr>pending_feed := Some True, logged := logged self @ [deferral_line]\<rparr>)"
  using assms by (simp add: check_feed_def Let_def)

lemma check_feed_pending_fixpoint:
  assumes "running_scan self" and "pending_feed self = Some True"
  shows "check_feed vt_id_ok nvti self = Inr self"
  using assms by (simp add: check_feed_def Let_def)

lemma scheduler_ticks_pending_fixpoint:
  assumes "running_scan self" and "pending_feed self = Some True"
  shows "scheduler_ticks vt_id_ok nvti n self = Inr self"
  using assms by (induction n) (simp_all add: check_feed_pending_fixpoint)

text \<open>
  Claim C3. In every state where a scan process is alive and the cached feed version
  differs from that of the store, a tick of \<open>check_feed\<close> leaves the VT table unchanged
  and leaves the pending flag set. The flag is written, and the deferral logged, only
  when the flag was not set before; once it is set, further ticks under the same
  conditions return the state exactly as it was, so the flag is set once.
\<close>

theorem check_feed_defers_reload:
  assumes "running_scan self" and "vts_version self \<noteq> Some (get_feed_version nvti)"
  shows "\<exists>self'. check_feed vt_id_ok nvti self = Inr self'
           \<and> vts self' = vts self
           \<and> pending_feed self' = Some True
           \<and> logged self' =
               (if pending_feed self = Some True then logged self
                else logged self @ [deferral_line])
           \<and> (pending_feed self = Some True \<longrightarrow> self' = self)
           \<and> (\<forall>n. scheduler_ticks vt_id_ok nvti n self' = Inr self')"
proof -
  let ?s = "if pending_feed self = Some True then self
            else self\<lparr>pending_feed := Some True, logged := logged self @ [deferral_line]\<rparr>"
  have step: "check_feed vt_id_ok nvti self = Inr ?s"
    using assms by (rule check_feed_running_stale)
  have run: "running_scan ?s"
    using assms(1) by (simp add: running_scan_def)
  have pend: "pending_feed ?s = Some True"
    by simp
  have later: "\<forall>n. scheduler_ticks vt_id_ok nvti n ?s = Inr ?s"
    using run pend by (blast intro: scheduler_ticks_pending_fixpoint)
  have "vts ?s = vts self" by simp
  moreover have "logged ?s = (if pending_feed self = Some True then logged self
                else logged self @ [deferral_line])" by simp
  moreover have "pending_feed self = Some True \<longrightarrow> ?s = self" by simp
  ultimately show ?thesis using step pend later by blast
qed

theorem check_feed_defers_reload_witness:
  "running_scan scanning_daemon
   \<and> vts_version scanning_daemon \<noteq> Some (get_feed_version feed_plain)
   \<and> (\<exists>self'. check_feed any_vt_id feed_plain scanning_daemon = Inr self'
         \<and> vts self' = vts scanning_daemon
         \<and> pending_feed self' = Some True
         \<and> logged self' = [deferral_line]
         \<and> scheduler_ticks any_vt_id feed_plain 3 self' = Inr self')"
proof -
  have run: "running_scan scanning_daemon"
    by (simp add: running_scan_def scanning_daemon_def dict_get_def)
  have stale: "vts_version scanning_daemon \<noteq> Some (get_feed_version feed_plain)"
    by (simp add: scanning_daemon_def feed_plain_def)
  have "pending_feed scanning_daemon \<noteq> Some True" "logged scanning_daemon = []"
    by (simp_all add: scanning_daemon_def)
  with check_feed_defers_reload [OF run stale, of any_vt_id] run stale
  show ?thesis by auto
qed

section \<open>Properties of the scan execution controller\<close>

lemma fst_after [simp]: "fst (after evs r) = evs @ fst r"
  by (simp add: after_def)

lemma snd_after [simp]: "snd (after evs r) = snd r"
  by (simp add: after_def)

lemma after_eq: "after evs r = (evs', x) \<longleftrightarrow> (\<exists>tl. r = (tl, x) \<and> evs' = evs @ tl)"
  by (cases r) (auto simp: after_def)

lemma releases_append [simp]: "releases i (a @ b) = releases i a + releases i b"
  by (simp add: releases_def)

lemma releases_Nil [simp]: "releases i [] = 0"
  by (simp add: releases_def)

lemma releases_Cons [simp]:
  "releases i (e # evs) = (if e = ReleaseDb i then 1 else 0) + releases i evs"
  by (simp add: releases_def)

lemma releases_map_Log [simp]: "releases i (map Log ls) = 0"
  by (induction ls) auto

lemma releases_map_Forwarded [simp]: "releases i (map Forwarded cs) = 0"
  by (induction cs) auto

lemma releases_map_AddSingleItem [simp]:
  "releases i (map (\<lambda>elem. AddSingleItem k (f elem)) ps) = 0"
  by (induction ps) auto

lemma releases_timestamp [simp]:
  "releases i (get_openvas_timestamp_scan_host scan_id target v) = 0"
  by (simp add: get_openvas_timestamp_scan_host_def)

lemma stopped_timestamp [simp]:
  "ScanIsStopped b \<notin> set (get_openvas_timestamp_scan_host scan_id target v)"
  by (simp add: get_openvas_timestamp_scan_host_def)

lemma sweep_releases:
  "releases main (fst (sweep main oid scan_id target views nif)) = 0"
  by (induction views arbitrary: nif) (auto simp: Let_def split: option.splits)

lemma sweep_not_stopped:
  "ScanIsStopped b \<notin> set (fst (sweep main oid scan_id target views nif))"
  by (induction views arbitrary: nif) (auto simp: Let_def split: option.splits)

lemma poll_returns:
  "poll main oid scan_id target ts nif = (evs, Some (Inr r)) \<Longrightarrow>
   r = RInt 1 \<and> releases main evs = (if ScanIsStopped True \<in> set evs then 0 else 1)"
proof (induction ts arbitrary: nif evs)
  case Nil
  then show ?case by simp
next
  case (Cons t ts)
  show ?case
  proof (cases "stop_marker t = Some ''stop_all''")
    case True
    with Cons.prems show ?thesis by auto
  next
    case False
    obtain sw res where sw: "sweep main oid scan_id target (dbindex t) nif = (sw, res)"
      by (cases "sweep main oid scan_id target (dbindex t) nif")
    have quiet: "releases main sw = 0" "ScanIsStopped True \<notin> set sw"
      using sweep_releases [of main oid scan_id target "dbindex t" nif]
        sweep_not_stopped [of True main oid scan_id target "dbindex t" nif] sw by simp_all
    show ?thesis
    proof (cases res)
      case (Inl e)
      with Cons.prems False sw show ?thesis by simp
    next
      case (Inr nif')
      show ?thesis
      proof (cases nif')
        case True
        with Cons.prems False sw Inr quiet show ?thesis by auto
      next
        case nf: False
        let ?pre = "[Sleep 3, KbConnect main, ScanIsStopped False] @ [KbConnect main] @ sw"
        from Cons.prems False sw Inr nf obtain tl where
          tl: "poll main oid scan_id target ts True = (tl, Some (Inr r))" and evs: "evs = ?pre @ tl"
          by (auto simp: after_eq)
        from Cons.IH [OF tl] have "r = RInt 1"
          and "releases main tl = (if ScanIsStopped True \<in> set tl then 0 else 1)" by simp_all
        with evs quiet show ?thesis by auto
      qed
    qed
  qed
qed

lemma wait_ready_releases: "releases i (fst (wait_ready ms)) = 0"
  by (induction ms) auto

lemma wait_ready_not_stopped: "ScanIsStopped b \<notin> set (fst (wait_ready ms))"
  by (induction ms) auto

lemma releases_announce [simp]: "releases i (announce env scan_id target) = 0"
  by (simp add: announce_def)

lemma stopped_announce [simp]: "ScanIsStopped b \<notin> set (announce env scan_id target)"
  by (simp add: announce_def)

lemma releases_store_session [simp]: "releases i (store_session env scan_id target ports) = 0"
  by (simp add: store_session_def Let_def)

lemma stopped_store_session [simp]:
  "ScanIsStopped b \<notin> set (store_session env scan_id target ports)"
  by (simp add: store_session_def Let_def)

lemma store_credentials_quiet:
  "store_credentials key creds = Inr evs \<Longrightarrow> releases i evs = 0 \<and> ScanIsStopped b \<notin> set evs"
  by (auto simp: store_credentials_def split: if_splits sum.splits)

lemma releases_store_plugins [simp]: "releases i (store_plugins key nvts_list nvts_params) = 0"
  by (simp add: store_plugins_def)

lemma stopped_store_plugins [simp]:
  "ScanIsStopped b \<notin> set (store_plugins key nvts_list nvts_params)"
  by (auto simp: store_plugins_def)

lemma start_engine_returns:
  assumes "start_engine env scan_id target = (evs, Some (Inr (RInt n)))"
  shows "n = 1 \<and> releases (kb_new_index env) evs = (if ScanIsStopped True \<in> set evs then 0 else 1)"
proof (cases "popen_pid env")
  case None
  with assms show ?thesis by (simp add: start_engine_def Let_def)
next
  case (Some pid)
  obtain w ready where w: "wait_ready (ready_markers env) = (w, ready)"
    by (cases "wait_ready (ready_markers env)")
  have wq: "releases (kb_new_index env) w = 0" "ScanIsStopped True \<notin> set w"
    using wait_ready_releases [of "kb_new_index env" "ready_markers env"]
      wait_ready_not_stopped [of True "ready_markers env"] w by simp_all
  show ?thesis
  proof (cases ready)
    case False
    with assms Some w show ?thesis by (simp add: start_engine_def Let_def after_eq)
  next
    case True
    let ?pre = "announce env scan_id target
                @ [Popen [''openvassd'', ''--scan-start'', uuid4 env],
                   Log (Debug (''pid = '' @ str_of_nat pid)),
                   AddSingleItem ''internal/ovas_pid'' [str_of_nat pid]]"
    from assms Some w True obtain tl where
      tl: "poll (kb_new_index env) (uuid4 env) scan_id target (ticks env) False
             = (tl, Some (Inr (RInt n)))"
      and evs: "evs = ?pre @ w @ tl"
      by (auto simp: start_engine_def Let_def after_eq)
    have "releases (kb_new_index env) ?pre = 0" "ScanIsStopped True \<notin> set ?pre"
      by simp_all
    with poll_returns [OF tl] wq evs show ?thesis by auto
  qed
qed

lemma write_prefs_returns:
  assumes "write_prefs table env scan_id target ports = (evs, Some (Inr (RInt n)))"
  shows "releases (kb_new_index env) evs = (if ScanIsStopped True \<in> set evs then 0 else 1)
         \<and> (ScanIsStopped True \<in> set evs \<longrightarrow> n = 1)"
proof (cases "store_credentials (scanprefs_key env) (scan_credentials env)")
  case (Inl e)
  with assms show ?thesis by (simp add: write_prefs_def Let_def)
next
  case (Inr wc)
  let ?written = "store_session env scan_id target ports"
  have wcq: "releases (kb_new_index env) wc = 0" "ScanIsStopped True \<notin> set wc"
    using store_credentials_quiet [OF Inr] by simp_all
  show ?thesis
  proof (cases "scan_vts env")
    case None
    with assms Inr have "evs = ?written @ wc
                   @ [ReleaseDb (kb_new_index env),
                      AddScanError scan_id target [] ''No VTS to run.'']"
      by (simp add: write_prefs_def Let_def)
    with wcq show ?thesis by simp
  next
    case (Some nvts)
    obtain lines res where pv: "process_vts table nvts = (lines, res)"
      by (cases "process_vts table nvts")
    show ?thesis
    proof (cases res)
      case (Inl e)
      with assms \<open>store_credentials (scanprefs_key env) (scan_credentials env) = Inr wc\<close> Some pv
      show ?thesis by (simp add: write_prefs_def Let_def)
    next
      case lp: (Inr lp)
      obtain nvts_list nvts_params where l: "lp = (nvts_list, nvts_params)" by (cases lp)
      let ?pre = "?written @ wc @ map Log lines
                  @ store_plugins (scanprefs_key env) nvts_list nvts_params"
      from assms Inr Some pv lp l obtain tl where
        tl: "start_engine env scan_id target = (tl, Some (Inr (RInt n)))"
        and evs: "evs = ?pre @ tl"
        by (auto simp: write_prefs_def Let_def after_eq)
      have preq: "releases (kb_new_index env) ?pre = 0" "ScanIsStopped True \<notin> set ?pre"
        using wcq by auto
      from start_engine_returns [OF tl] have "n = 1"
        and "releases (kb_new_index env) tl = (if ScanIsStopped True \<in> set tl then 0 else 1)"
        by simp_all
      with evs preq show ?thesis by auto
    qed
  qed
qed

text \<open>The definitions that evaluate a scan of the example environments.\<close>

lemmas scan_eval =
  exec_scan_def example_daemon_def env_stopped_def env_finished_def env_no_match_def
  write_prefs_def store_session_def store_credentials_def store_plugins_def scanprefs_key_def
  option_pref_def OSPD_PARAMS_def dict_get_def dict_has_def dict_get_default_def
  from_bool_to_str_def process_vts_def get_vts_in_groups_def start_engine_def announce_def
  after_def Let_def host_view_def nonempty_def get_openvas_timestamp_scan_host_def
  example_vt_def str_of_nat.simps digit_char_def Spec2Isabelle.split_def

text \<open>
  Claim C1 says that every scan that ends after its session index was allocated, by a
  normal finish, by a stop of the client or by a failure to start the engine, has
  released the main KB index exactly once before \<open>exec_scan\<close> returns. What holds of
  the runs that return an integer code: when \<open>exec_scan\<close> has allocated an index and
  returns, it has released that index exactly once if no call of \<open>scan_is_stopped\<close>
  answered yes (the scan finished, or was rejected for want of a VT selection), and not
  at all if one did; a stopped scan returns 1. In the source the release that goes with
  a stop is made by \<open>stop_scan\<close> (line 798), which runs in another process.
\<close>

theorem exec_scan_releases_main_index:
  assumes "exec_scan self env scan_id target = (evs, Some (Inr (RInt n)))"
    and "list_ex is_kb_new evs"
  shows "releases (kb_new_index env) evs = (if ScanIsStopped True \<in> set evs then 0 else 1)
         \<and> (ScanIsStopped True \<in> set evs \<longrightarrow> n = 1)"
proof (cases "pending_feed self = Some True \<or> scan_ports env = []")
  case True
  with assms show ?thesis by (auto simp: exec_scan_def Let_def split: if_splits)
next
  case False
  with assms(1) have "write_prefs (vts self) env scan_id target (scan_ports env)
                        = (evs, Some (Inr (RInt n)))"
    by (simp add: exec_scan_def Let_def)
  then show ?thesis by (rule write_prefs_returns)
qed

theorem exec_scan_releases_main_index_witness:
  "snd (exec_scan example_daemon env_finished ''scan-1'' ''10.0.0.1'') = Some (Inr (RInt 1))
   \<and> releases 1 (fst (exec_scan example_daemon env_finished ''scan-1'' ''10.0.0.1'')) = 1
   \<and> snd (exec_scan example_daemon env_stopped ''scan-1'' ''10.0.0.1'') = Some (Inr (RInt 1))
   \<and> releases 1 (fst (exec_scan example_daemon env_stopped ''scan-1'' ''10.0.0.1'')) = 0"
proof -
  let ?f = "exec_scan example_daemon env_finished ''scan-1'' ''10.0.0.1''"
  let ?s = "exec_scan example_daemon env_stopped ''scan-1'' ''10.0.0.1''"
  have f: "snd ?f = Some (Inr (RInt 1))" by (simp add: scan_eval)
  have fa: "list_ex is_kb_new (fst ?f)" by (simp add: scan_eval)
  have fs: "ScanIsStopped True \<notin> set (fst ?f)" by (simp add: scan_eval)
  have fk: "kb_new_index env_finished = 1" by (simp add: scan_eval)
  have s: "snd ?s = Some (Inr (RInt 1))" by (simp add: scan_eval)
  have sa: "list_ex is_kb_new (fst ?s)" by (simp add: scan_eval)
  have ss: "ScanIsStopped True \<in> set (fst ?s)" by (simp add: scan_eval)
  have sk: "kb_new_index env_stopped = 1" by (simp add: scan_eval)
  from f have "?f = (fst ?f, Some (Inr (RInt 1)))" by (metis prod.collapse)
  from exec_scan_releases_main_index [OF this fa] fs fk
  have r1: "releases 1 (fst ?f) = 1" by simp
  from s have "?s = (fst ?s, Some (Inr (RInt 1)))" by (metis prod.collapse)
  from exec_scan_releases_main_index [OF this sa] ss sk
  have r0: "releases 1 (fst ?s) = 0" by simp
  from f r1 s r0 show ?thesis by blast
qed

text \<open>
  Claim C1 as stated fails where the client stops the scan: in the environment
  \<open>env_stopped\<close> the scan allocates index 1, sees the stop marker in the first round
  and returns 1, and index 1 has not been released.
\<close>

theorem exec_scan_stop_leaves_main_index:
  "snd (exec_scan example_daemon env_stopped ''scan-1'' ''10.0.0.1'') = Some (Inr (RInt 1))
   \<and> KbNew 1 \<in> set (fst (exec_scan example_daemon env_stopped ''scan-1'' ''10.0.0.1''))
   \<and> releases 1 (fst (exec_scan example_daemon env_stopped ''scan-1'' ''10.0.0.1'')) = 0"
  by (simp add: scan_eval)

text \<open>
  Claim C4. When a feed reload is pending or no ports are given for the target,
  \<open>exec_scan\<close> records a scan-level error and returns 2, and has neither allocated a
  session index nor tried to start the engine process.
\<close>

theorem exec_scan_rejects_before_allocation:
  assumes "pending_feed self = Some True \<or> scan_ports env = []"
  shows "snd (exec_scan self env scan_id target) = Some (Inr (RInt 2))
         \<and> (\<exists>v. AddScanError scan_id target [] v \<in> set (fst (exec_scan self env scan_id target)))
         \<and> \<not> list_ex is_kb_new (fst (exec_scan self env scan_id target))
         \<and> \<not> list_ex is_popen (fst (exec_scan self env scan_id target))"
  using assms by (auto simp: exec_scan_def Let_def)

theorem exec_scan_rejects_before_allocation_witness:
  "snd (exec_scan (example_daemon\<lparr>pending_feed := Some True\<rparr>) env_finished ''scan-1'' ''10.0.0.1'')
     = Some (Inr (RInt 2))
   \<and> \<not> list_ex is_kb_new
         (fst (exec_scan (example_daemon\<lparr>pending_feed := Some True\<rparr>) env_finished
                 ''scan-1'' ''10.0.0.1''))
   \<and> snd (exec_scan example_daemon (env_finished\<lparr>scan_ports := []\<rparr>) ''scan-1'' ''10.0.0.1'')
     = Some (Inr (RInt 2))
   \<and> \<not> list_ex is_popen
         (fst (exec_scan example_daemon (env_finished\<lparr>scan_ports := []\<rparr>) ''scan-1'' ''10.0.0.1''))"
proof -
  have p: "pending_feed (example_daemon\<lparr>pending_feed := Some True\<rparr>) = Some True
           \<or> scan_ports env_finished = []"
    by simp
  have q: "pending_feed example_daemon = Some True
           \<or> scan_ports (env_finished\<lparr>scan_ports := []\<rparr>) = []"
    by simp
  from exec_scan_rejects_before_allocation [OF p, of "''scan-1''" "''10.0.0.1''"]
    exec_scan_rejects_before_allocation [OF q, of "''scan-1''" "''10.0.0.1''"]
  show ?thesis by blast
qed

lemma build_credentials_returns: "\<exists>prefs. build_credentials_as_prefs credentials = Inr prefs"
  by (simp add: build_credentials_eq)

lemma store_credentials_returns:
  "\<exists>evs. store_credentials key creds = Inr evs \<and> \<not> list_ex is_popen evs
          \<and> \<not> list_ex is_scan_error evs \<and> releases i evs = 0"
  using build_credentials_returns [of creds]
  by (auto simp: store_credentials_def)

lemma store_session_quiet [simp]:
  "\<not> list_ex is_popen (store_session env scan_id target ports)"
  "\<not> list_ex is_scan_error (store_session env scan_id target ports)"
  by (simp_all add: store_session_def Let_def)

lemma map_Log_quiet [simp]:
  "\<not> list_ex is_scan_error (map Log ls)"
  by (induction ls) auto

lemma store_plugins_quiet [simp]:
  "\<not> list_ex is_scan_error (store_plugins key nvts_list nvts_params)"
  by (induction nvts_params) (auto simp: store_plugins_def)

lemma announce_quiet [simp]: "\<not> list_ex is_scan_error (announce env scan_id target)"
  by (simp add: announce_def)

lemma timestamp_quiet [simp]:
  "\<not> list_ex is_scan_error (get_openvas_timestamp_scan_host scan_id target v)"
  by (simp add: get_openvas_timestamp_scan_host_def)

lemma map_Forwarded_quiet [simp]: "\<not> list_ex is_scan_error (map Forwarded cs)"
  by (induction cs) auto











text \<open>
  When the engine process cannot be started (\<open>Popen\<close> raises \<open>OSError\<close>, lines 1062 to
  1066), \<open>exec_scan\<close> returns \<open>False\<close>, and the index it allocated has not been released.
\<close>

lemma exec_scan_spawn_failure:
  assumes "pending_feed self \<noteq> Some True" and "scan_ports env \<noteq> []"
    and "scan_vts env = Some nvts"
    and "snd (process_vts (vts self) nvts) = Inr (nvts_list, nvts_params)"
    and "popen_pid env = None"
  shows "snd (exec_scan self env scan_id target) = Some (Inr RFalse)
         \<and> KbNew (kb_new_index env) \<in> set (fst (exec_scan self env scan_id target))
         \<and> releases (kb_new_index env) (fst (exec_scan self env scan_id target)) = 0"
proof -
  obtain wc where wc: "store_credentials (scanprefs_key env) (scan_credentials env) = Inr wc"
    and wcq: "releases (kb_new_index env) wc = 0"
    using store_credentials_returns [of "scanprefs_key env" "scan_credentials env" "kb_new_index env"]
    by blast
  from assms(4) obtain lines where
    pv: "process_vts (vts self) nvts = (lines, Inr (nvts_list, nvts_params))"
    by (cases "process_vts (vts self) nvts") auto
  have eng: "start_engine env scan_id target
               = (announce env scan_id target
                  @ [Popen [''openvassd'', ''--scan-start'', uuid4 env]], Some (Inr RFalse))"
    using assms(5) by (simp add: start_engine_def Let_def)
  have kb: "KbNew (kb_new_index env) \<in> set (store_session env scan_id target (scan_ports env))"
    by (simp add: store_session_def Let_def)
  have "exec_scan self env scan_id target
          = write_prefs (vts self) env scan_id target (scan_ports env)"
    using assms(1,2) by (simp add: exec_scan_def Let_def)
  with assms(3) wc pv eng wcq kb show ?thesis
    by (simp add: write_prefs_def Let_def after_def)
qed


section \<open>Properties of the preference encoder\<close>











end
